theory Spec2Isabelle
  imports Complex_Main
begin

section \<open>The phase-change simulation of \<open>phaseflow/octadecane.py\<close>\<close>

text \<open>
  The module defines one class, \<open>Simulation\<close>, with a constructor that stores twelve
  parameters and two methods: \<open>update_element\<close>, which builds the mixed finite element,
  and \<open>update_governing_form\<close>, which builds the symbolic weak form. The finite-element
  framework is an outside library: its element constructors and its symbolic operators are
  modelled as the constructors of datatypes, so that the model records exactly which
  operator the Python applies to which operands, in the order Python's precedence gives.
  Where the library refuses the module's call (an element degree below 1, a sum of
  expressions of different shapes) the method raises, and the model raises with it.
\<close>

subsection \<open>Elements\<close>

text \<open>
  \<open>fenics.FiniteElement(family, cell, degree)\<close>, \<open>fenics.VectorElement(family, cell, degree)\<close>
  and \<open>fenics.MixedElement([...])\<close>. The cell type \<open>'c\<close> is whatever \<open>mesh.ufl_cell()\<close>
  returns. Degrees are Python integers.
\<close>

datatype 'c element =
    FiniteElement string 'c int
  | VectorElement string 'c int
  | MixedElement "'c element list"

fun sub_elements :: "'c element \<Rightarrow> 'c element list" where
  "sub_elements (MixedElement es) = es"
| "sub_elements e = []"

fun degree :: "'c element \<Rightarrow> int option" where
  "degree (FiniteElement family cell d) = Some d"
| "degree (VectorElement family cell d) = Some d"
| "degree (MixedElement es) = None"

subsection \<open>Symbolic expressions\<close>

text \<open>
  A tensor value of rank 0, 1 or 2. It is the argument of \<open>fenics.Constant\<close> (a float or a
  list of floats) and the value of an expression at a point.
\<close>

datatype tensor = Scalar real | Vector "real list" | Matrix "real list list"

text \<open>\<open>w.function_space()\<close>: the space a function lives in, named by the function.\<close>

datatype 'f space = function_space 'f

text \<open>
  The expression language. \<open>FloatValue\<close> and \<open>IntValue\<close> are the Python literals that enter an
  expression (\<open>1.\<close>, \<open>0.5\<close>, \<open>2.\<close> and the exponent \<open>2\<close>); \<open>Split w i\<close> is the \<open>i\<close>-th
  component of \<open>fenics.split(w)\<close> and \<open>TestFunctions W i\<close> the \<open>i\<close>-th component of
  \<open>fenics.TestFunctions(W)\<close>; the other constructors are the operators \<open>+\<close>, binary and unary
  \<open>-\<close>, \<open>*\<close>, \<open>/\<close>, \<open>**\<close> and the functions \<open>tanh\<close>, \<open>inner\<close>, \<open>dot\<close>, \<open>grad\<close>, \<open>div\<close>, \<open>sym\<close>.
\<close>

datatype 'f ufl =
    FloatValue real
  | IntValue int
  | Constant tensor
  | Split 'f nat
  | TestFunctions "'f space" nat
  | Sum "'f ufl" "'f ufl"
  | Difference "'f ufl" "'f ufl"
  | Negation "'f ufl"
  | Product "'f ufl" "'f ufl"
  | Division "'f ufl" "'f ufl"
  | Power "'f ufl" "'f ufl"
  | Tanh "'f ufl"
  | Inner "'f ufl" "'f ufl"
  | Dot "'f ufl" "'f ufl"
  | Grad "'f ufl"
  | Div "'f ufl"
  | Sym "'f ufl"

text \<open>An integrand multiplied by the integration measure: \<open>(...)*dx\<close>.\<close>

datatype ('f, 'dx) form = Integral "'f ufl" 'dx

subsection \<open>The object\<close>

text \<open>
  The attributes of a \<open>Simulation\<close> object. The first twelve are the constructor's arguments.
  \<open>semi_phasefield_mapping\<close> holds Python's \<open>None\<close> or a callable from expressions to
  expressions. \<open>mesh\<close>, \<open>integration_metric\<close>, \<open>state\<close> and \<open>old_state\<close> are supplied by the
  base class \<open>phaseflow.simulation.Simulation\<close>, which is not part of this module; for them, and
  for \<open>element\<close> and \<open>governing_form\<close>, \<open>None\<close> means that the attribute has not been set, so
  that reading it raises \<open>AttributeError\<close>. \<open>UFLException\<close> is the exception of the
  form library. The numeric parameters are reals and the degrees
  are integers: the module does no arithmetic on the parameters apart from adding 1 to the
  pressure degree; it wraps them in symbolic constants.
\<close>

datatype error = AttributeError | UFLException

record 'c Mesh =
  ufl_cell :: 'c

text \<open>
  A function of the mixed space: its name and the dimension of the mesh it lives on, which is
  the number of components of its velocity.
\<close>

record 'n Function =
  function_name :: 'n
  geometric_dimension :: nat

record 'f State =
  solution :: 'f

record ('c, 'dx, 'f) Simulation =
  timestep_size :: real
  rayleigh_numer :: real
  prandtl_number :: real
  stefan_number :: real
  gravity :: "real list"
  liquid_viscosity :: real
  solid_viscosity :: real
  penalty_parameter :: real
  regularization_central_temperature :: real
  regularization_smoothing_parameter :: real
  pressure_element_degree :: int
  temperature_element_degree :: int
  semi_phasefield_mapping :: "('f ufl \<Rightarrow> 'f ufl) option"
  mesh :: "'c Mesh option"
  integration_metric :: "'dx option"
  state :: "'f State option"
  old_state :: "'f State option"
  element :: "'c element option"
  governing_form :: "('f, 'dx) form option"

text \<open>
  A method either returns, leaving the object in a new state (\<open>Inr\<close>), or raises, leaving the
  object in the state it had reached (\<open>Inl\<close>).
\<close>

type_synonym ('c, 'dx, 'f) outcome =
  "(error \<times> ('c, 'dx, 'f) Simulation) + ('c, 'dx, 'f) Simulation"

fun after :: "('c, 'dx, 'f) outcome \<Rightarrow> ('c, 'dx, 'f) Simulation" where
  "after (Inl (e, self)) = self"
| "after (Inr self) = self"

subsection \<open>\<open>Simulation.update_element\<close>\<close>

text \<open>
  The calls \<open>fenics.FiniteElement("P", cell, degree)\<close> and
  \<open>fenics.VectorElement("P", cell, degree)\<close>. The library is outside the module; what is
  modelled of it is that the degrees of the family \<open>P\<close>, the only one the module builds,
  start at 1: a lower degree is refused with an exception.
\<close>

definition fenics_FiniteElement :: "string \<Rightarrow> 'c \<Rightarrow> int \<Rightarrow> error + 'c element" where
  "fenics_FiniteElement family cell d =
     (if d < 1 then Inl UFLException else Inr (FiniteElement family cell d))"

definition fenics_VectorElement :: "string \<Rightarrow> 'c \<Rightarrow> int \<Rightarrow> error + 'c element" where
  "fenics_VectorElement family cell d =
     (if d < 1 then Inl UFLException else Inr (VectorElement family cell d))"

text \<open>
  The method builds the pressure element (line 57), the velocity element (line 61) and the
  temperature element (line 63) in this order and raises at the first refusal, before
  \<open>element\<close> is assigned.
\<close>

definition update_element :: "('c, 'dx, 'f) Simulation \<Rightarrow> ('c, 'dx, 'f) outcome" where
  "update_element self =
     (case mesh self of
        None \<Rightarrow> Inl (AttributeError, self)
      | Some m \<Rightarrow>
     (case fenics_FiniteElement ''P'' (ufl_cell m) (pressure_element_degree self) of
        Inl e \<Rightarrow> Inl (e, self)
      | Inr pressure_element \<Rightarrow>
          let velocity_element_degree = pressure_element_degree self + 1
          in
     (case fenics_VectorElement ''P'' (ufl_cell m) velocity_element_degree of
        Inl e \<Rightarrow> Inl (e, self)
      | Inr velocity_element \<Rightarrow>
     (case fenics_FiniteElement ''P'' (ufl_cell m) (temperature_element_degree self) of
        Inl e \<Rightarrow> Inl (e, self)
      | Inr temperature_element \<Rightarrow>
          Inr (self\<lparr>element :=
            Some (MixedElement [pressure_element, velocity_element, temperature_element])\<rparr>)))))"

text \<open>The degree of the \<open>i\<close>-th sub-element of the element a call has built.\<close>

definition sub_element_degree :: "nat \<Rightarrow> ('c, 'dx, 'f) outcome \<Rightarrow> int option" where
  "sub_element_degree i r =
     (case r of
        Inl x \<Rightarrow> None
      | Inr self \<Rightarrow>
          (case element self of
             None \<Rightarrow> None
           | Some e \<Rightarrow> if i < length (sub_elements e) then degree (sub_elements e ! i) else None))"

subsection \<open>\<open>Simulation.__init__\<close>\<close>

text \<open>
  Lines 26 to 50 of the constructor: every argument is assigned to the attribute of its name
  and \<open>semi_phasefield_mapping\<close> is set to \<open>None\<close>. The other attributes do not exist yet.
\<close>

definition Simulation_init_body ::
  "real \<Rightarrow> real \<Rightarrow> real \<Rightarrow> real \<Rightarrow> real list \<Rightarrow> real \<Rightarrow> real \<Rightarrow> real \<Rightarrow> real \<Rightarrow> real \<Rightarrow> int \<Rightarrow> int
     \<Rightarrow> ('c, 'dx, 'f) Simulation" where
  "Simulation_init_body timestep_size' rayleigh_numer' prandtl_number' stefan_number' gravity'
       liquid_viscosity' solid_viscosity' penalty_parameter'
       regularization_central_temperature' regularization_smoothing_parameter'
       pressure_element_degree' temperature_element_degree' =
     \<lparr>timestep_size = timestep_size',
      rayleigh_numer = rayleigh_numer',
      prandtl_number = prandtl_number',
      stefan_number = stefan_number',
      gravity = gravity',
      liquid_viscosity = liquid_viscosity',
      solid_viscosity = solid_viscosity',
      penalty_parameter = penalty_parameter',
      regularization_central_temperature = regularization_central_temperature',
      regularization_smoothing_parameter = regularization_smoothing_parameter',
      pressure_element_degree = pressure_element_degree',
      temperature_element_degree = temperature_element_degree',
      semi_phasefield_mapping = None,
      mesh = None, integration_metric = None, state = None, old_state = None,
      element = None, governing_form = None\<rparr>"

text \<open>
  Line 52 then calls \<open>phaseflow.simulation.Simulation.__init__(self)\<close>. The base class is not
  part of this module, so its initialiser is the parameter \<open>base_init\<close>: it receives the
  object and returns it, or raises.
\<close>

definition Simulation_init ::
  "(('c, 'dx, 'f) Simulation \<Rightarrow> error + ('c, 'dx, 'f) Simulation)
     \<Rightarrow> real \<Rightarrow> real \<Rightarrow> real \<Rightarrow> real \<Rightarrow> real list \<Rightarrow> real \<Rightarrow> real \<Rightarrow> real \<Rightarrow> real \<Rightarrow> real \<Rightarrow> int \<Rightarrow> int
     \<Rightarrow> error + ('c, 'dx, 'f) Simulation" where
  "Simulation_init base_init timestep_size' rayleigh_numer' prandtl_number' stefan_number'
       gravity' liquid_viscosity' solid_viscosity' penalty_parameter'
       regularization_central_temperature' regularization_smoothing_parameter'
       pressure_element_degree' temperature_element_degree' =
     base_init (Simulation_init_body timestep_size' rayleigh_numer' prandtl_number'
       stefan_number' gravity' liquid_viscosity' solid_viscosity' penalty_parameter'
       regularization_central_temperature' regularization_smoothing_parameter'
       pressure_element_degree' temperature_element_degree')"

text \<open>The constructor's default arguments.\<close>

definition default_body :: "('c, 'dx, 'f) Simulation" where
  "default_body =
     Simulation_init_body 1 1 1 1 [0, - 1] 1 100000000 (1 / 10000000) 0 (1 / 100) 1 1"

subsection \<open>\<open>Simulation.update_governing_form\<close>\<close>

text \<open>
  The functions the method defines locally, with the constants they capture as their first
  arguments. \<open>a\<close>, \<open>b\<close>, \<open>c\<close> and \<open>D\<close> of the source are \<open>a_form\<close>, \<open>b_form\<close>, \<open>c_form\<close>
  and \<open>D_form\<close> here.
\<close>

definition f_B :: "'f ufl \<Rightarrow> 'f ufl \<Rightarrow> 'f ufl \<Rightarrow> 'f ufl \<Rightarrow> 'f ufl \<Rightarrow> 'f ufl" where
  "f_B = (\<lambda>Ra Pr Re g T.
     Product (Division (Product T Ra) (Product Pr (Power Re (IntValue 2)))) g)"

definition phi :: "'f ufl \<Rightarrow> 'f ufl \<Rightarrow> 'f ufl \<Rightarrow> 'f ufl" where
  "phi T_r r T =
     Product (FloatValue (1 / 2)) (Sum (FloatValue 1) (Tanh (Division (Difference T_r T) r)))"

definition mu :: "'f ufl \<Rightarrow> 'f ufl \<Rightarrow> 'f ufl \<Rightarrow> 'f ufl" where
  "mu mu_L mu_S phi_of_T = Sum mu_L (Product (Difference mu_S mu_L) phi_of_T)"

definition b_form :: "'f ufl \<Rightarrow> 'f ufl \<Rightarrow> 'f ufl" where
  "b_form u p = Product (Negation (Div u)) p"

definition D_form :: "'f ufl \<Rightarrow> 'f ufl" where
  "D_form u = Sym (Grad u)"

definition a_form :: "'f ufl \<Rightarrow> 'f ufl \<Rightarrow> 'f ufl \<Rightarrow> 'f ufl" where
  "a_form mu' u v = Product (Product (FloatValue 2) mu') (Inner (D_form u) (D_form v))"

definition c_form :: "'f ufl \<Rightarrow> 'f ufl \<Rightarrow> 'f ufl \<Rightarrow> 'f ufl" where
  "c_form u z v = Dot (Dot (Grad z) u) v"

text \<open>
  The method, statement by statement. The constants are built from the parameters, the
  mapping is stored (line 97), then \<open>integration_metric\<close>, \<open>state\<close> and \<open>old_state\<close> are read
  (lines 110 to 114): if one of them is missing the method raises there, after the mapping has
  been stored. The sum of lines 151 to 155 is nested to the left, as Python evaluates it.
  Line 152 subtracts \<open>u_n\<close> from \<open>u\<close> and adds \<open>f_B(T)\<close>, a multiple of \<open>g\<close>, to the
  result. The form library refuses to subtract or add expressions of different shapes, so
  the method raises there, with no form stored, unless the velocities of \<open>w\<close> and \<open>w_n\<close>
  and the gravity list have the same number of components. The other operands of the sum
  have the shapes that the space of \<open>w\<close> gives them.
\<close>

definition update_governing_form ::
  "('c, 'dx, 'n Function) Simulation \<Rightarrow> ('c, 'dx, 'n Function) outcome" where
  "update_governing_form self0 =
     (let Delta_t = Constant (Scalar (timestep_size self0));
          Pr = Constant (Scalar (prandtl_number self0));
          Ra = Constant (Scalar (rayleigh_numer self0));
          Ste = Constant (Scalar (stefan_number self0));
          g = Constant (Vector (gravity self0));
          Re = Constant (Scalar 1);
          T_r = Constant (Scalar (regularization_central_temperature self0));
          r = Constant (Scalar (regularization_smoothing_parameter self0));
          self = self0\<lparr>semi_phasefield_mapping := Some (phi T_r r)\<rparr>;
          mu_L = Constant (Scalar (liquid_viscosity self));
          mu_S = Constant (Scalar (solid_viscosity self));
          gamma = Constant (Scalar (penalty_parameter self))
      in case integration_metric self of
           None \<Rightarrow> Inl (AttributeError, self)
         | Some dx \<Rightarrow>
        (case state self of
           None \<Rightarrow> Inl (AttributeError, self)
         | Some st \<Rightarrow>
        (case old_state self of
           None \<Rightarrow> Inl (AttributeError, self)
         | Some st_n \<Rightarrow>
             let w = solution st;
                 w_n = solution st_n;
                 W = function_space w;
                 p = Split w 0; u = Split w 1; T = Split w 2;
                 p_n = Split w_n 0; u_n = Split w_n 1; T_n = Split w_n 2;
                 psi_p = TestFunctions W 0; psi_u = TestFunctions W 1; psi_T = TestFunctions W 2
             in
             if geometric_dimension w_n \<noteq> geometric_dimension w \<or>
                length (gravity self) \<noteq> geometric_dimension w
             then Inl (UFLException, self)
             else Inr (self\<lparr>governing_form := Some (Integral
                  (Sum (Sum (Sum (Sum (Sum (Sum
                     (Difference (b_form u psi_p) (Product (Product psi_p gamma) p))
                     (Dot psi_u
                        (Sum (Product (Division (FloatValue 1) Delta_t) (Difference u u_n))
                             (f_B Ra Pr Re g T))))
                     (c_form u u psi_u))
                     (b_form psi_u p))
                     (a_form (mu mu_L mu_S (phi T_r r T)) u psi_u))
                     (Product (Product (Division (FloatValue 1) Delta_t) psi_T)
                        (Difference (Difference T T_n)
                           (Product (Division (FloatValue 1) Ste)
                              (Difference (phi T_r r T) (phi T_r r T_n))))))
                     (Dot (Grad psi_T)
                        (Difference (Product (Division (FloatValue 1) Pr) (Grad T))
                                    (Product T u))))
                  dx)\<rparr>))))"

text \<open>The integrand of the form a call has stored.\<close>

definition integrand_of :: "('c, 'dx, 'f) outcome \<Rightarrow> 'f ufl option" where
  "integrand_of r =
     (case r of
        Inl x \<Rightarrow> None
      | Inr self \<Rightarrow>
          (case governing_form self of None \<Rightarrow> None | Some (Integral F dx) \<Rightarrow> Some F))"

subsection \<open>The value of an expression at a point\<close>

text \<open>
  The operators of the form language have their usual mathematical meaning. It is given here
  pointwise: at a point of a mesh of dimension \<open>d\<close>, a function of the mixed space has a
  pressure, a velocity and a temperature, and each of them has a gradient. Vectors are lists
  of reals and matrices are lists of rows; row \<open>i\<close> of the gradient of a vector \<open>v\<close> holds
  the derivatives of \<open>v\<^sub>i\<close>.
\<close>

record sample =
  pressure :: real
  pressure_grad :: "real list"
  velocity :: "real list"
  velocity_grad :: "real list list"
  temperature :: real
  temperature_grad :: "real list"

record 'f point =
  solution_at :: "'f \<Rightarrow> sample"
  test_at :: "'f space \<Rightarrow> sample"

definition wf_sample :: "nat \<Rightarrow> sample \<Rightarrow> bool" where
  "wf_sample d s \<longleftrightarrow>
     length (pressure_grad s) = d \<and> length (velocity s) = d \<and>
     length (velocity_grad s) = d \<and> list_all (\<lambda>row. length row = d) (velocity_grad s) \<and>
     length (temperature_grad s) = d"

fun component :: "sample \<Rightarrow> nat \<Rightarrow> tensor option" where
  "component s i =
     (if i = 0 then Some (Scalar (pressure s))
      else if i = 1 then Some (Vector (velocity s))
      else if i = 2 then Some (Scalar (temperature s))
      else None)"

fun component_grad :: "sample \<Rightarrow> nat \<Rightarrow> tensor option" where
  "component_grad s i =
     (if i = 0 then Some (Vector (pressure_grad s))
      else if i = 1 then Some (Matrix (velocity_grad s))
      else if i = 2 then Some (Vector (temperature_grad s))
      else None)"

definition scale_vec :: "real \<Rightarrow> real list \<Rightarrow> real list" where
  "scale_vec k xs = map (\<lambda>x. k * x) xs"

definition add_vec :: "real list \<Rightarrow> real list \<Rightarrow> real list" where
  "add_vec xs ys = map2 (+) xs ys"

definition sub_vec :: "real list \<Rightarrow> real list \<Rightarrow> real list" where
  "sub_vec xs ys = map2 (-) xs ys"

definition dot_vec :: "real list \<Rightarrow> real list \<Rightarrow> real" where
  "dot_vec xs ys = sum_list (map2 (*) xs ys)"

definition mat_vec :: "real list list \<Rightarrow> real list \<Rightarrow> real list" where
  "mat_vec m v = map (\<lambda>row. dot_vec row v) m"

definition inner_mat :: "real list list \<Rightarrow> real list list \<Rightarrow> real" where
  "inner_mat m n = sum_list (map2 dot_vec m n)"

definition trace :: "real list list \<Rightarrow> real" where
  "trace m = sum_list (map (\<lambda>i. m ! i ! i) [0..<length m])"

definition square :: "real list list \<Rightarrow> bool" where
  "square m \<longleftrightarrow> list_all (\<lambda>row. length row = length m) m"

definition sym_mat :: "real list list \<Rightarrow> real list list" where
  "sym_mat m =
     map (\<lambda>i. map (\<lambda>j. (m ! i ! j + m ! j ! i) / 2) [0..<length m]) [0..<length m]"

fun scale_tensor :: "real \<Rightarrow> tensor \<Rightarrow> tensor" where
  "scale_tensor k (Scalar x) = Scalar (k * x)"
| "scale_tensor k (Vector xs) = Vector (scale_vec k xs)"
| "scale_tensor k (Matrix m) = Matrix (map (scale_vec k) m)"

text \<open>Sums and differences need operands of one shape.\<close>

fun add_tensor :: "tensor \<Rightarrow> tensor \<Rightarrow> tensor option" where
  "add_tensor (Scalar x) (Scalar y) = Some (Scalar (x + y))"
| "add_tensor (Vector xs) (Vector ys) =
     (if length xs = length ys then Some (Vector (add_vec xs ys)) else None)"
| "add_tensor (Matrix m) (Matrix n) =
     (if map length m = map length n then Some (Matrix (map2 add_vec m n)) else None)"
| "add_tensor s t = None"

fun sub_tensor :: "tensor \<Rightarrow> tensor \<Rightarrow> tensor option" where
  "sub_tensor (Scalar x) (Scalar y) = Some (Scalar (x - y))"
| "sub_tensor (Vector xs) (Vector ys) =
     (if length xs = length ys then Some (Vector (sub_vec xs ys)) else None)"
| "sub_tensor (Matrix m) (Matrix n) =
     (if map length m = map length n then Some (Matrix (map2 sub_vec m n)) else None)"
| "sub_tensor s t = None"

text \<open>
  The products the module forms have a scalar factor on the left; a scalar on the right
  scales as well. Other products are given no value.
\<close>

fun mul_tensor :: "tensor \<Rightarrow> tensor \<Rightarrow> tensor option" where
  "mul_tensor (Scalar k) t = Some (scale_tensor k t)"
| "mul_tensor (Vector xs) (Scalar k) = Some (Vector (scale_vec k xs))"
| "mul_tensor (Matrix m) (Scalar k) = Some (Matrix (map (scale_vec k) m))"
| "mul_tensor s t = None"

text \<open>The denominator is a scalar; dividing by zero has no value.\<close>

fun div_tensor :: "tensor \<Rightarrow> tensor \<Rightarrow> tensor option" where
  "div_tensor (Scalar x) (Scalar y) = (if y = 0 then None else Some (Scalar (x / y)))"
| "div_tensor (Vector xs) (Scalar y) =
     (if y = 0 then None else Some (Vector (map (\<lambda>x. x / y) xs)))"
| "div_tensor (Matrix m) (Scalar y) =
     (if y = 0 then None else Some (Matrix (map (map (\<lambda>x. x / y)) m)))"
| "div_tensor s t = None"

fun inner_tensor :: "tensor \<Rightarrow> tensor \<Rightarrow> tensor option" where
  "inner_tensor (Scalar x) (Scalar y) = Some (Scalar (x * y))"
| "inner_tensor (Vector xs) (Vector ys) =
     (if length xs = length ys then Some (Scalar (dot_vec xs ys)) else None)"
| "inner_tensor (Matrix m) (Matrix n) =
     (if map length m = map length n then Some (Scalar (inner_mat m n)) else None)"
| "inner_tensor s t = None"

text \<open>\<open>dot\<close> contracts the last index of its first operand with the first of its second.\<close>

fun dot_tensor :: "tensor \<Rightarrow> tensor \<Rightarrow> tensor option" where
  "dot_tensor (Vector xs) (Vector ys) =
     (if length xs = length ys then Some (Scalar (dot_vec xs ys)) else None)"
| "dot_tensor (Matrix m) (Vector v) =
     (if list_all (\<lambda>row. length row = length v) m then Some (Vector (mat_vec m v)) else None)"
| "dot_tensor s t = None"

fun sym_tensor :: "tensor \<Rightarrow> tensor option" where
  "sym_tensor (Matrix m) = (if square m then Some (Matrix (sym_mat m)) else None)"
| "sym_tensor t = None"

fun tanh_tensor :: "tensor \<Rightarrow> tensor option" where
  "tanh_tensor (Scalar x) = Some (Scalar (tanh x))"
| "tanh_tensor t = None"

fun trace_tensor :: "tensor \<Rightarrow> tensor option" where
  "trace_tensor (Matrix m) = (if square m then Some (Scalar (trace m)) else None)"
| "trace_tensor t = None"

text \<open>A scalar to a literal non-negative integer power.\<close>

fun power_tensor :: "tensor \<Rightarrow> 'f ufl \<Rightarrow> tensor option" where
  "power_tensor (Scalar x) (IntValue n) = (if 0 \<le> n then Some (Scalar (x ^ nat n)) else None)"
| "power_tensor t e = None"

text \<open>
  The form differentiates only the unknown and the test functions, so \<open>grad\<close> and \<open>div\<close> are
  given a value on those: the gradient the point supplies, and its trace.
\<close>

fun grad_at :: "'f point \<Rightarrow> 'f ufl \<Rightarrow> tensor option" where
  "grad_at E (Split w i) = component_grad (solution_at E w) i"
| "grad_at E (TestFunctions W i) = component_grad (test_at E W) i"
| "grad_at E e = None"

fun lift2 :: "(tensor \<Rightarrow> tensor \<Rightarrow> tensor option) \<Rightarrow> tensor option \<Rightarrow> tensor option
    \<Rightarrow> tensor option" where
  "lift2 f (Some s) (Some t) = f s t"
| "lift2 f x y = None"

fun eval :: "'f point \<Rightarrow> 'f ufl \<Rightarrow> tensor option" where
  "eval E (FloatValue x) = Some (Scalar x)"
| "eval E (IntValue n) = Some (Scalar (of_int n))"
| "eval E (Constant t) = Some t"
| "eval E (Split w i) = component (solution_at E w) i"
| "eval E (TestFunctions W i) = component (test_at E W) i"
| "eval E (Sum e1 e2) = lift2 add_tensor (eval E e1) (eval E e2)"
| "eval E (Difference e1 e2) = lift2 sub_tensor (eval E e1) (eval E e2)"
| "eval E (Negation e) = map_option (scale_tensor (- 1)) (eval E e)"
| "eval E (Product e1 e2) = lift2 mul_tensor (eval E e1) (eval E e2)"
| "eval E (Division e1 e2) = lift2 div_tensor (eval E e1) (eval E e2)"
| "eval E (Power e1 e2) = Option.bind (eval E e1) (\<lambda>t. power_tensor t e2)"
| "eval E (Tanh e) = Option.bind (eval E e) tanh_tensor"
| "eval E (Inner e1 e2) = lift2 inner_tensor (eval E e1) (eval E e2)"
| "eval E (Dot e1 e2) = lift2 dot_tensor (eval E e1) (eval E e2)"
| "eval E (Grad e) = grad_at E e"
| "eval E (Div e) = Option.bind (grad_at E e) trace_tensor"
| "eval E (Sym e) = Option.bind (eval E e) sym_tensor"

subsection \<open>The terms of the integrand\<close>

text \<open>
  The integrand is a sum; its terms are the operands of its nested \<open>+\<close>. A term belongs to
  the equation whose test function it contains: \<open>psi_p\<close> (index 0) for mass, \<open>psi_u\<close>
  (index 1) for momentum, \<open>psi_T\<close> (index 2) for energy.
\<close>

fun summands :: "'f ufl \<Rightarrow> 'f ufl list" where
  "summands (Sum e1 e2) = summands e1 @ summands e2"
| "summands e = [e]"

fun tests :: "nat \<Rightarrow> 'f ufl \<Rightarrow> bool" where
  "tests i (TestFunctions W j) = (i = j)"
| "tests i (FloatValue x) = False"
| "tests i (IntValue n) = False"
| "tests i (Constant t) = False"
| "tests i (Split w j) = False"
| "tests i (Sum e1 e2) = (tests i e1 \<or> tests i e2)"
| "tests i (Difference e1 e2) = (tests i e1 \<or> tests i e2)"
| "tests i (Negation e) = tests i e"
| "tests i (Product e1 e2) = (tests i e1 \<or> tests i e2)"
| "tests i (Division e1 e2) = (tests i e1 \<or> tests i e2)"
| "tests i (Power e1 e2) = (tests i e1 \<or> tests i e2)"
| "tests i (Tanh e) = tests i e"
| "tests i (Inner e1 e2) = (tests i e1 \<or> tests i e2)"
| "tests i (Dot e1 e2) = (tests i e1 \<or> tests i e2)"
| "tests i (Grad e) = tests i e"
| "tests i (Div e) = tests i e"
| "tests i (Sym e) = tests i e"

definition terms_testing :: "nat \<Rightarrow> 'f ufl \<Rightarrow> 'f ufl list" where
  "terms_testing i F = filter (tests i) (summands F)"

text \<open>The value of a list of terms: the sum of their values, if each has one.\<close>

fun terms_value :: "'f point \<Rightarrow> 'f ufl list \<Rightarrow> real option" where
  "terms_value E [] = Some 0"
| "terms_value E (e # es) =
     (case (eval E e, terms_value E es) of
        (Some (Scalar x), Some y) \<Rightarrow> Some (x + y)
      | _ \<Rightarrow> None)"

subsection \<open>The local functions of an object\<close>

text \<open>
  \<open>f_B\<close>, \<open>phi\<close> and \<open>mu\<close> as \<open>update_governing_form\<close> closes them over the constants
  it builds from the attributes of \<open>self\<close> (lines 73 to 105); \<open>Re\<close> is the constant 1.
\<close>

definition buoyancy :: "('c, 'dx, 'f) Simulation \<Rightarrow> 'f ufl \<Rightarrow> 'f ufl" where
  "buoyancy self =
     f_B (Constant (Scalar (rayleigh_numer self))) (Constant (Scalar (prandtl_number self)))
         (Constant (Scalar 1)) (Constant (Vector (gravity self)))"

definition phase_indicator :: "('c, 'dx, 'f) Simulation \<Rightarrow> 'f ufl \<Rightarrow> 'f ufl" where
  "phase_indicator self =
     phi (Constant (Scalar (regularization_central_temperature self)))
         (Constant (Scalar (regularization_smoothing_parameter self)))"

definition viscosity :: "('c, 'dx, 'f) Simulation \<Rightarrow> 'f ufl \<Rightarrow> 'f ufl" where
  "viscosity self =
     mu (Constant (Scalar (liquid_viscosity self))) (Constant (Scalar (solid_viscosity self)))"

text \<open>
  The terms of the sum of lines 151 to 155 that are not a single call of \<open>a\<close>, \<open>b\<close> or
  \<open>c\<close>: the mass term \<open>b(u, psi_p) - psi_p*gamma*p\<close>, the time derivative
  \<open>1./Delta_t*(u - u_n)\<close> inside the momentum term, and the two energy terms of lines 154
  and 155.
\<close>

definition mass_term :: "('c, 'dx, 'f) Simulation \<Rightarrow> 'f \<Rightarrow> 'f ufl" where
  "mass_term self w =
     Difference (b_form (Split w 1) (TestFunctions (function_space w) 0))
       (Product (Product (TestFunctions (function_space w) 0)
                   (Constant (Scalar (penalty_parameter self)))) (Split w 0))"

definition time_derivative_of_velocity :: "('c, 'dx, 'f) Simulation \<Rightarrow> 'f \<Rightarrow> 'f \<Rightarrow> 'f ufl" where
  "time_derivative_of_velocity self w w_n =
     Product (Division (FloatValue 1) (Constant (Scalar (timestep_size self))))
       (Difference (Split w 1) (Split w_n 1))"

definition energy_time_term :: "('c, 'dx, 'f) Simulation \<Rightarrow> 'f \<Rightarrow> 'f \<Rightarrow> 'f ufl" where
  "energy_time_term self w w_n =
     Product (Product (Division (FloatValue 1) (Constant (Scalar (timestep_size self))))
                (TestFunctions (function_space w) 2))
       (Difference (Difference (Split w 2) (Split w_n 2))
          (Product (Division (FloatValue 1) (Constant (Scalar (stefan_number self))))
             (Difference (phase_indicator self (Split w 2))
                         (phase_indicator self (Split w_n 2)))))"

definition energy_transport_term :: "('c, 'dx, 'f) Simulation \<Rightarrow> 'f \<Rightarrow> 'f ufl" where
  "energy_transport_term self w =
     Dot (Grad (TestFunctions (function_space w) 2))
       (Difference (Product (Division (FloatValue 1) (Constant (Scalar (prandtl_number self))))
                      (Grad (Split w 2)))
                   (Product (Split w 2) (Split w 1)))"

text \<open>The terms of the mass and momentum equations: those tested with \<open>psi_p\<close> or \<open>psi_u\<close>.\<close>

definition mass_momentum_terms :: "'f ufl \<Rightarrow> 'f ufl list" where
  "mass_momentum_terms F = filter (\<lambda>e. tests 0 e \<or> tests 1 e) (summands F)"

subsection \<open>The equations as the specification writes them\<close>

text \<open>
  The formulas of the specification, over the reals: the phase indicator, the viscosity
  blend, the buoyancy force and the forms \<open>b\<close> and \<open>a\<close> of the Stokes problem. The code is
  compared with them below.
\<close>

definition phi_spec :: "real \<Rightarrow> real \<Rightarrow> real \<Rightarrow> real" where
  "phi_spec T_r r T = 0.5 * (1 + tanh ((T_r - T) / r))"

definition mu_spec :: "real \<Rightarrow> real \<Rightarrow> real \<Rightarrow> real" where
  "mu_spec mu_L mu_S x = mu_L + (mu_S - mu_L) * x"

definition f_B_spec :: "real \<Rightarrow> real \<Rightarrow> real \<Rightarrow> real list \<Rightarrow> real \<Rightarrow> real list" where
  "f_B_spec Ra Pr Re' g T = scale_vec (T * Ra / (Pr * Re'\<^sup>2)) g"

definition b_spec :: "real \<Rightarrow> real \<Rightarrow> real" where
  "b_spec div_v q = - div_v * q"

definition a_spec :: "real \<Rightarrow> real list list \<Rightarrow> real list list \<Rightarrow> real" where
  "a_spec m grad_u grad_v = 2 * m * inner_mat (sym_mat grad_u) (sym_mat grad_v)"

definition energy_spec ::
  "real \<Rightarrow> real \<Rightarrow> real \<Rightarrow> real \<Rightarrow> real \<Rightarrow> sample \<Rightarrow> sample \<Rightarrow> sample \<Rightarrow> real" where
  "energy_spec Delta_t Ste Pr T_r r psi w w_n =
     (1 / Delta_t) * temperature psi *
       (temperature w - temperature w_n -
          (1 / Ste) * (phi_spec T_r r (temperature w) - phi_spec T_r r (temperature w_n)))
     + dot_vec (temperature_grad psi)
         (sub_vec (scale_vec (1 / Pr) (temperature_grad w))
                  (scale_vec (temperature w) (velocity w)))"

definition stokes_spec ::
  "real \<Rightarrow> real \<Rightarrow> real \<Rightarrow> real \<Rightarrow> real \<Rightarrow> real \<Rightarrow> real \<Rightarrow> real \<Rightarrow> real list
     \<Rightarrow> sample \<Rightarrow> sample \<Rightarrow> real" where
  "stokes_spec gamma mu_L mu_S T_r r Ra Pr Re' g psi w =
     b_spec (trace (velocity_grad w)) (pressure psi) - gamma * pressure psi * pressure w
     + b_spec (trace (velocity_grad psi)) (pressure w)
     + a_spec (mu_spec mu_L mu_S (phi_spec T_r r (temperature w)))
         (velocity_grad w) (velocity_grad psi)
     + dot_vec (velocity psi) (f_B_spec Ra Pr Re' g (temperature w))"

subsection \<open>The life of an object\<close>

text \<open>The twelve parameter attributes of an object, in the order of the constructor.\<close>

definition parameters ::
  "('c, 'dx, 'f) Simulation \<Rightarrow>
     real \<times> real \<times> real \<times> real \<times> real list \<times> real \<times> real \<times> real \<times> real \<times> real \<times> int \<times> int" where
  "parameters self =
     (timestep_size self, rayleigh_numer self, prandtl_number self, stefan_number self,
      gravity self, liquid_viscosity self, solid_viscosity self, penalty_parameter self,
      regularization_central_temperature self, regularization_smoothing_parameter self,
      pressure_element_degree self, temperature_element_degree self)"

text \<open>
  After lines 26 to 50 of its constructor, an object changes when the base class or the
  driver supplies one of \<open>mesh\<close>, \<open>integration_metric\<close>, \<open>state\<close>, \<open>old_state\<close>, and when
  one of its two methods is called. A call that raises leaves the object as it was at the
  raise.
\<close>

datatype ('c, 'dx, 'f) event =
    Supply_mesh "'c Mesh"
  | Supply_integration_metric 'dx
  | Supply_state "'f State"
  | Supply_old_state "'f State"
  | Call_update_element
  | Call_update_governing_form

fun apply_event ::
  "('c, 'dx, 'n Function) event \<Rightarrow> ('c, 'dx, 'n Function) Simulation
     \<Rightarrow> ('c, 'dx, 'n Function) Simulation" where
  "apply_event (Supply_mesh m) self = self\<lparr>mesh := Some m\<rparr>"
| "apply_event (Supply_integration_metric dx) self = self\<lparr>integration_metric := Some dx\<rparr>"
| "apply_event (Supply_state st) self = self\<lparr>state := Some st\<rparr>"
| "apply_event (Supply_old_state st) self = self\<lparr>old_state := Some st\<rparr>"
| "apply_event Call_update_element self = after (update_element self)"
| "apply_event Call_update_governing_form self = after (update_governing_form self)"

fun run ::
  "('c, 'dx, 'n Function) event list \<Rightarrow> ('c, 'dx, 'n Function) Simulation
     \<Rightarrow> ('c, 'dx, 'n Function) Simulation" where
  "run [] self = self"
| "run (e # es) self = run es (apply_event e self)"

subsection \<open>A concrete object and a concrete point\<close>

text \<open>
  An object built with the default arguments on a mesh of triangles, with its inputs
  supplied, and a point of a two-dimensional mesh; \<open>example_w\<close> and \<open>example_w_n\<close> are
  the current and the previous solution.
\<close>

definition example_w :: "string Function" where
  "example_w = \<lparr>function_name = ''w'', geometric_dimension = 2\<rparr>"

definition example_w_n :: "string Function" where
  "example_w_n = \<lparr>function_name = ''w_n'', geometric_dimension = 2\<rparr>"

definition example_simulation :: "(string, unit, string Function) Simulation" where
  "example_simulation =
     default_body
       \<lparr>mesh := Some \<lparr>ufl_cell = ''triangle''\<rparr>,
        integration_metric := Some (),
        state := Some \<lparr>solution = example_w\<rparr>,
        old_state := Some \<lparr>solution = example_w_n\<rparr>\<rparr>"

definition example_point :: "string Function point" where
  "example_point =
     \<lparr>solution_at = (\<lambda>f.
        if function_name f = ''w''
        then \<lparr>pressure = 1, pressure_grad = [0, 1], velocity = [1, 2],
              velocity_grad = [[1, 0], [2, 1]], temperature = 1, temperature_grad = [1, 1]\<rparr>
        else \<lparr>pressure = 0, pressure_grad = [0, 0], velocity = [0, 1],
              velocity_grad = [[0, 0], [0, 0]], temperature = 0, temperature_grad = [0, 0]\<rparr>),
      test_at = (\<lambda>W.
        \<lparr>pressure = 1, pressure_grad = [1, 0], velocity = [1, 1],
         velocity_grad = [[1, 2], [0, 1]], temperature = 1, temperature_grad = [1, 0]\<rparr>)\<rparr>"

section \<open>The concrete object\<close>

lemma example_attributes:
  "integration_metric example_simulation = Some ()"
  "state example_simulation = Some \<lparr>solution = example_w\<rparr>"
  "old_state example_simulation = Some \<lparr>solution = example_w_n\<rparr>"
  "geometric_dimension example_w = 2"
  "geometric_dimension example_w_n = 2"
  "timestep_size example_simulation = 1"
  "rayleigh_numer example_simulation = 1"
  "prandtl_number example_simulation = 1"
  "stefan_number example_simulation = 1"
  "gravity example_simulation = [0, - 1]"
  "liquid_viscosity example_simulation = 1"
  "solid_viscosity example_simulation = 100000000"
  "penalty_parameter example_simulation = 1 / 10000000"
  "regularization_central_temperature example_simulation = 0"
  "regularization_smoothing_parameter example_simulation = 1 / 100"
  by (simp_all add: example_simulation_def default_body_def Simulation_init_body_def
      example_w_def example_w_n_def)

lemma example_wf:
  "wf_sample 2 (solution_at example_point example_w)"
  "wf_sample 2 (solution_at example_point example_w_n)"
  "wf_sample 2 (test_at example_point (function_space example_w))"
  by (simp_all add: example_point_def wf_sample_def)

section \<open>The mixed element\<close>

lemma update_element_returns:
  "mesh self = Some m \<Longrightarrow> 1 \<le> pressure_element_degree self \<Longrightarrow>
   1 \<le> temperature_element_degree self \<Longrightarrow>
   update_element self =
     Inr (self\<lparr>element := Some (MixedElement
       [FiniteElement ''P'' (ufl_cell m) (pressure_element_degree self),
        VectorElement ''P'' (ufl_cell m) (pressure_element_degree self + 1),
        FiniteElement ''P'' (ufl_cell m) (temperature_element_degree self)])\<rparr>)"
  by (simp add: update_element_def fenics_FiniteElement_def fenics_VectorElement_def)

lemma update_element_raises:
  "mesh self = None \<or> pressure_element_degree self < 1 \<or> temperature_element_degree self < 1
   \<Longrightarrow> \<exists>e. update_element self = Inl (e, self)"
  by (auto simp add: update_element_def fenics_FiniteElement_def fenics_VectorElement_def
      split: option.splits)

lemma update_element_returned:
  assumes "update_element self = Inr self'"
  shows "\<exists>m. mesh self = Some m \<and> 1 \<le> pressure_element_degree self \<and>
     1 \<le> temperature_element_degree self \<and>
     self' = self\<lparr>element := Some (MixedElement
       [FiniteElement ''P'' (ufl_cell m) (pressure_element_degree self),
        VectorElement ''P'' (ufl_cell m) (pressure_element_degree self + 1),
        FiniteElement ''P'' (ufl_cell m) (temperature_element_degree self)])\<rparr>"
proof -
  have "\<not> (mesh self = None \<or> pressure_element_degree self < 1 \<or>
      temperature_element_degree self < 1)"
  proof
    assume refused: "mesh self = None \<or> pressure_element_degree self < 1 \<or>
      temperature_element_degree self < 1"
    from update_element_raises [OF refused] assms show False by auto
  qed
  then have present: "mesh self \<noteq> None \<and> 1 \<le> pressure_element_degree self \<and>
      1 \<le> temperature_element_degree self"
    by (simp add: not_less)
  then obtain m where m: "mesh self = Some m" by auto
  with present assms update_element_returns [of self m] show ?thesis by auto
qed

text \<open>
  C4. Every call of \<open>update_element\<close> that returns has stored a mixed element of three
  sub-elements whose second, the velocity element, is a vector element of degree
  \<open>pressure_element_degree + 1\<close>: the degree is computed from the pressure degree alone.
  The call returns when the mesh is present and the pressure and temperature degrees are at
  least 1; otherwise it raises and stores no element.
\<close>

theorem velocity_degree_one_above_pressure:
  "(\<forall>self'. update_element self = Inr self' \<longrightarrow>
      (\<exists>m pe te. mesh self = Some m \<and>
         element self' = Some (MixedElement
           [pe, VectorElement ''P'' (ufl_cell m) (pressure_element_degree self + 1), te])) \<and>
      sub_element_degree 1 (update_element self) = Some (pressure_element_degree self + 1)) \<and>
   (mesh self \<noteq> None \<and> 1 \<le> pressure_element_degree self \<and>
      1 \<le> temperature_element_degree self \<longrightarrow>
      (\<exists>self'. update_element self = Inr self')) \<and>
   (mesh self = None \<or> pressure_element_degree self < 1 \<or>
      temperature_element_degree self < 1 \<longrightarrow>
      (\<exists>e. update_element self = Inl (e, self)) \<and>
      element (after (update_element self)) = element self)"
proof (intro conjI allI impI)
  fix self'
  assume returned: "update_element self = Inr self'"
  from update_element_returned [OF returned]
  show "\<exists>m pe te. mesh self = Some m \<and>
         element self' = Some (MixedElement
           [pe, VectorElement ''P'' (ufl_cell m) (pressure_element_degree self + 1), te])"
    by auto
  from update_element_returned [OF returned] returned
  show "sub_element_degree 1 (update_element self) = Some (pressure_element_degree self + 1)"
    by (auto simp add: sub_element_degree_def)
next
  assume "mesh self \<noteq> None \<and> 1 \<le> pressure_element_degree self \<and>
      1 \<le> temperature_element_degree self"
  then show "\<exists>self'. update_element self = Inr self'"
    using update_element_returns [of self] by auto
next
  assume refused: "mesh self = None \<or> pressure_element_degree self < 1 \<or>
      temperature_element_degree self < 1"
  from update_element_raises [OF refused]
  show "\<exists>e. update_element self = Inl (e, self)" .
  from update_element_raises [OF refused]
  show "element (after (update_element self)) = element self" by auto
qed

theorem velocity_degree_one_above_pressure_witness:
  "mesh ((default_body :: (string, unit, unit) Simulation)
       \<lparr>pressure_element_degree := 3, mesh := Some \<lparr>ufl_cell = ''triangle''\<rparr>\<rparr>) \<noteq> None \<and>
   (\<exists>self'. update_element ((default_body :: (string, unit, unit) Simulation)
       \<lparr>pressure_element_degree := 3, mesh := Some \<lparr>ufl_cell = ''triangle''\<rparr>\<rparr>)
       = Inr self' \<and>
      sub_element_degree 1 (Inr self') = Some 4) \<and>
   pressure_element_degree ((default_body :: (string, unit, unit) Simulation)
       \<lparr>pressure_element_degree := 0, mesh := Some \<lparr>ufl_cell = ''triangle''\<rparr>\<rparr>) < 1 \<and>
   (\<exists>e. update_element ((default_body :: (string, unit, unit) Simulation)
       \<lparr>pressure_element_degree := 0, mesh := Some \<lparr>ufl_cell = ''triangle''\<rparr>\<rparr>)
       = Inl (e, (default_body :: (string, unit, unit) Simulation)
       \<lparr>pressure_element_degree := 0, mesh := Some \<lparr>ufl_cell = ''triangle''\<rparr>\<rparr>))"
proof -
  let ?good = "(default_body :: (string, unit, unit) Simulation)
       \<lparr>pressure_element_degree := 3, mesh := Some \<lparr>ufl_cell = ''triangle''\<rparr>\<rparr>"
  let ?bad = "(default_body :: (string, unit, unit) Simulation)
       \<lparr>pressure_element_degree := 0, mesh := Some \<lparr>ufl_cell = ''triangle''\<rparr>\<rparr>"
  have degrees: "pressure_element_degree ?good = 3" "temperature_element_degree ?good = 1"
    "pressure_element_degree ?bad = 0" "mesh ?good \<noteq> None"
    by (simp_all add: default_body_def Simulation_init_body_def)
  have "mesh ?good \<noteq> None \<and> 1 \<le> pressure_element_degree ?good \<and>
      1 \<le> temperature_element_degree ?good \<longrightarrow>
      (\<exists>self'. update_element ?good = Inr self')"
    by (rule conjunct1 [OF conjunct2 [OF velocity_degree_one_above_pressure [of ?good]]])
  with degrees obtain self' where returned: "update_element ?good = Inr self'" by auto
  have "\<forall>self'. update_element ?good = Inr self' \<longrightarrow>
      (\<exists>m pe te. mesh ?good = Some m \<and>
         element self' = Some (MixedElement
           [pe, VectorElement ''P'' (ufl_cell m) (pressure_element_degree ?good + 1), te])) \<and>
      sub_element_degree 1 (update_element ?good) = Some (pressure_element_degree ?good + 1)"
    by (rule conjunct1 [OF velocity_degree_one_above_pressure [of ?good]])
  with returned have
    "sub_element_degree 1 (update_element ?good) = Some (pressure_element_degree ?good + 1)"
    by blast
  with degrees returned have "sub_element_degree 1 (Inr self') = Some 4" by simp
  with returned have good: "\<exists>self'. update_element ?good = Inr self' \<and>
      sub_element_degree 1 (Inr self') = Some 4" by blast
  have "mesh ?bad = None \<or> pressure_element_degree ?bad < 1 \<or>
      temperature_element_degree ?bad < 1 \<longrightarrow>
      (\<exists>e. update_element ?bad = Inl (e, ?bad)) \<and>
      element (after (update_element ?bad)) = element ?bad"
    by (rule conjunct2 [OF conjunct2 [OF velocity_degree_one_above_pressure [of ?bad]]])
  with degrees have bad: "\<exists>e. update_element ?bad = Inl (e, ?bad)" by simp
  from good bad degrees show ?thesis by (intro conjI) simp_all
qed

text \<open>
  C7, as the code has it. The temperature element is built at \<open>temperature_element_degree\<close>,
  a constructor argument of its own: every call of \<open>update_element\<close> that returns has stored
  a pressure element of degree \<open>p\<close>, a velocity element of degree \<open>p + 1\<close> and a temperature
  element of degree \<open>t\<close>, which is the pressure degree exactly when the two configured
  degrees are equal. The call returns when the mesh is present and both degrees are at least
  1; otherwise it raises and stores no element.
\<close>

theorem temperature_degree_is_configured:
  "(\<forall>self'. update_element self = Inr self' \<longrightarrow>
      (\<exists>m. mesh self = Some m \<and>
         self' = self\<lparr>element := Some (MixedElement
           [FiniteElement ''P'' (ufl_cell m) (pressure_element_degree self),
            VectorElement ''P'' (ufl_cell m) (pressure_element_degree self + 1),
            FiniteElement ''P'' (ufl_cell m) (temperature_element_degree self)])\<rparr>) \<and>
      sub_element_degree 0 (update_element self) = Some (pressure_element_degree self) \<and>
      sub_element_degree 2 (update_element self) = Some (temperature_element_degree self) \<and>
      (sub_element_degree 2 (update_element self) = sub_element_degree 0 (update_element self)
         \<longleftrightarrow> temperature_element_degree self = pressure_element_degree self)) \<and>
   (mesh self \<noteq> None \<and> 1 \<le> pressure_element_degree self \<and>
      1 \<le> temperature_element_degree self \<longrightarrow>
      (\<exists>self'. update_element self = Inr self')) \<and>
   (mesh self = None \<or> pressure_element_degree self < 1 \<or>
      temperature_element_degree self < 1 \<longrightarrow>
      (\<exists>e. update_element self = Inl (e, self)) \<and>
      sub_element_degree 2 (update_element self) = None)"
proof (intro conjI allI impI)
  fix self'
  assume returned: "update_element self = Inr self'"
  from update_element_returned [OF returned]
  show "\<exists>m. mesh self = Some m \<and>
         self' = self\<lparr>element := Some (MixedElement
           [FiniteElement ''P'' (ufl_cell m) (pressure_element_degree self),
            VectorElement ''P'' (ufl_cell m) (pressure_element_degree self + 1),
            FiniteElement ''P'' (ufl_cell m) (temperature_element_degree self)])\<rparr>"
    by auto
  from update_element_returned [OF returned] returned
  have degrees:
    "sub_element_degree 0 (update_element self) = Some (pressure_element_degree self)"
    "sub_element_degree 2 (update_element self) = Some (temperature_element_degree self)"
    by (auto simp add: sub_element_degree_def)
  from degrees
  show "sub_element_degree 0 (update_element self) = Some (pressure_element_degree self)"
    by simp
  from degrees
  show "sub_element_degree 2 (update_element self) = Some (temperature_element_degree self)"
    by simp
  from degrees
  show "sub_element_degree 2 (update_element self) = sub_element_degree 0 (update_element self)
         \<longleftrightarrow> temperature_element_degree self = pressure_element_degree self"
    by simp
next
  assume "mesh self \<noteq> None \<and> 1 \<le> pressure_element_degree self \<and>
      1 \<le> temperature_element_degree self"
  then show "\<exists>self'. update_element self = Inr self'"
    using update_element_returns [of self] by auto
next
  assume refused: "mesh self = None \<or> pressure_element_degree self < 1 \<or>
      temperature_element_degree self < 1"
  from update_element_raises [OF refused]
  show "\<exists>e. update_element self = Inl (e, self)" .
  from update_element_raises [OF refused]
  show "sub_element_degree 2 (update_element self) = None"
    by (auto simp add: sub_element_degree_def)
qed

theorem temperature_degree_is_configured_witness:
  "mesh ((default_body :: (string, unit, unit) Simulation)
       \<lparr>temperature_element_degree := 2, mesh := Some \<lparr>ufl_cell = ''triangle''\<rparr>\<rparr>) \<noteq> None \<and>
   (\<exists>self'. update_element ((default_body :: (string, unit, unit) Simulation)
       \<lparr>temperature_element_degree := 2, mesh := Some \<lparr>ufl_cell = ''triangle''\<rparr>\<rparr>)
       = Inr self') \<and>
   sub_element_degree 2 (update_element ((default_body :: (string, unit, unit) Simulation)
       \<lparr>temperature_element_degree := 2, mesh := Some \<lparr>ufl_cell = ''triangle''\<rparr>\<rparr>))
     = Some 2 \<and>
   sub_element_degree 0 (update_element ((default_body :: (string, unit, unit) Simulation)
       \<lparr>temperature_element_degree := 2, mesh := Some \<lparr>ufl_cell = ''triangle''\<rparr>\<rparr>))
     = Some 1 \<and>
   temperature_element_degree ((default_body :: (string, unit, unit) Simulation)
       \<lparr>temperature_element_degree := 0, mesh := Some \<lparr>ufl_cell = ''triangle''\<rparr>\<rparr>) < 1 \<and>
   sub_element_degree 2 (update_element ((default_body :: (string, unit, unit) Simulation)
       \<lparr>temperature_element_degree := 0, mesh := Some \<lparr>ufl_cell = ''triangle''\<rparr>\<rparr>))
     = None"
proof -
  let ?good = "(default_body :: (string, unit, unit) Simulation)
       \<lparr>temperature_element_degree := 2, mesh := Some \<lparr>ufl_cell = ''triangle''\<rparr>\<rparr>"
  let ?bad = "(default_body :: (string, unit, unit) Simulation)
       \<lparr>temperature_element_degree := 0, mesh := Some \<lparr>ufl_cell = ''triangle''\<rparr>\<rparr>"
  have degrees: "pressure_element_degree ?good = 1" "temperature_element_degree ?good = 2"
    "temperature_element_degree ?bad = 0" "mesh ?good \<noteq> None"
    by (simp_all add: default_body_def Simulation_init_body_def)
  have "mesh ?good \<noteq> None \<and> 1 \<le> pressure_element_degree ?good \<and>
      1 \<le> temperature_element_degree ?good \<longrightarrow>
      (\<exists>self'. update_element ?good = Inr self')"
    by (rule conjunct1 [OF conjunct2 [OF temperature_degree_is_configured [of ?good]]])
  with degrees obtain self' where returned: "update_element ?good = Inr self'" by auto
  have "\<forall>self'. update_element ?good = Inr self' \<longrightarrow>
      (\<exists>m. mesh ?good = Some m \<and>
         self' = ?good\<lparr>element := Some (MixedElement
           [FiniteElement ''P'' (ufl_cell m) (pressure_element_degree ?good),
            VectorElement ''P'' (ufl_cell m) (pressure_element_degree ?good + 1),
            FiniteElement ''P'' (ufl_cell m) (temperature_element_degree ?good)])\<rparr>) \<and>
      sub_element_degree 0 (update_element ?good) = Some (pressure_element_degree ?good) \<and>
      sub_element_degree 2 (update_element ?good) = Some (temperature_element_degree ?good) \<and>
      (sub_element_degree 2 (update_element ?good) = sub_element_degree 0 (update_element ?good)
         \<longleftrightarrow> temperature_element_degree ?good = pressure_element_degree ?good)"
    by (rule conjunct1 [OF temperature_degree_is_configured [of ?good]])
  with returned have
    "sub_element_degree 0 (update_element ?good) = Some (pressure_element_degree ?good) \<and>
     sub_element_degree 2 (update_element ?good) = Some (temperature_element_degree ?good)"
    by blast
  with degrees have good: "sub_element_degree 2 (update_element ?good) = Some 2"
    "sub_element_degree 0 (update_element ?good) = Some 1"
    by simp_all
  have "mesh ?bad = None \<or> pressure_element_degree ?bad < 1 \<or>
      temperature_element_degree ?bad < 1 \<longrightarrow>
      (\<exists>e. update_element ?bad = Inl (e, ?bad)) \<and>
      sub_element_degree 2 (update_element ?bad) = None"
    by (rule conjunct2 [OF conjunct2 [OF temperature_degree_is_configured [of ?bad]]])
  with degrees have bad: "sub_element_degree 2 (update_element ?bad) = None" by simp
  from returned have returns: "\<exists>self'. update_element ?good = Inr self'" by blast
  from returns good bad degrees show ?thesis by (intro conjI) simp_all
qed

text \<open>
  C7 as stated fails: built with pressure degree 1 and temperature degree 2, the object gets
  a temperature element of degree 2 and a pressure element of degree 1.
\<close>

theorem temperature_degree_counterexample:
  "sub_element_degree 2 (update_element
      ((Simulation_init_body 1 1 1 1 [0, - 1] 1 100000000 (1 / 10000000) 0 (1 / 100) 1 2
          :: (string, unit, unit) Simulation)\<lparr>mesh := Some \<lparr>ufl_cell = ''triangle''\<rparr>\<rparr>))
   \<noteq> sub_element_degree 0 (update_element
      ((Simulation_init_body 1 1 1 1 [0, - 1] 1 100000000 (1 / 10000000) 0 (1 / 100) 1 2)
          \<lparr>mesh := Some \<lparr>ufl_cell = ''triangle''\<rparr>\<rparr>))"
  by (simp add: update_element_def sub_element_degree_def Simulation_init_body_def
      fenics_FiniteElement_def fenics_VectorElement_def)

section \<open>The parameters and the mapping over the life of an object\<close>

lemma parameters_update_element:
  "parameters (after (update_element self)) = parameters self"
  by (simp add: update_element_def parameters_def Let_def split: option.splits sum.splits)

lemma parameters_update_governing_form:
  "parameters (after (update_governing_form self)) = parameters self"
  by (simp add: update_governing_form_def parameters_def Let_def split: option.splits)

lemma parameters_apply_event: "parameters (apply_event e self) = parameters self"
  by (cases e)
    (simp_all add: parameters_update_element parameters_update_governing_form,
     simp_all add: parameters_def)

lemma parameters_run: "parameters (run evs self) = parameters self"
  by (induction evs arbitrary: self) (simp_all add: parameters_apply_event)

lemma mapping_update_element:
  "semi_phasefield_mapping (after (update_element self)) = semi_phasefield_mapping self"
  by (simp add: update_element_def Let_def split: option.splits sum.splits)

lemma mapping_update_governing_form:
  "semi_phasefield_mapping (after (update_governing_form self)) =
     Some (phi (Constant (Scalar (regularization_central_temperature self)))
               (Constant (Scalar (regularization_smoothing_parameter self))))"
  by (simp add: update_governing_form_def Let_def split: option.splits)

lemma regularization_of_parameters:
  "parameters s = parameters s' \<Longrightarrow>
     regularization_central_temperature s = regularization_central_temperature s' \<and>
     regularization_smoothing_parameter s = regularization_smoothing_parameter s'"
  by (simp add: parameters_def)

lemma mapping_run:
  "semi_phasefield_mapping (run evs self) =
     (if Call_update_governing_form \<in> set evs
      then Some (phi (Constant (Scalar (regularization_central_temperature self)))
                     (Constant (Scalar (regularization_smoothing_parameter self))))
      else semi_phasefield_mapping self)"
proof (induction evs arbitrary: self)
  case Nil
  show ?case by simp
next
  case (Cons e evs)
  have same:
    "regularization_central_temperature (apply_event e self) =
       regularization_central_temperature self \<and>
     regularization_smoothing_parameter (apply_event e self) =
       regularization_smoothing_parameter self"
    by (rule regularization_of_parameters) (rule parameters_apply_event)
  show ?case
  proof (cases e)
    case Call_update_governing_form
    then show ?thesis using same by (simp add: Cons.IH mapping_update_governing_form)
  next
    case Call_update_element
    then show ?thesis using same by (simp add: Cons.IH mapping_update_element)
  qed (use same in \<open>simp_all add: Cons.IH\<close>)
qed

text \<open>
  C8. The constructor's own statements check nothing: for every twelve argument values they
  produce an object whose parameter attributes are the arguments, unchanged, and the
  constructor's result is whatever the base-class initialiser makes of that object. So
  construction succeeds, with every argument stored, whenever the base-class initialiser
  returns and leaves the parameters alone.
\<close>

theorem constructor_stores_every_argument:
  "parameters (Simulation_init_body a1 a2 a3 a4 a5 a6 a7 a8 a9 a10 a11 a12
       :: ('c, 'dx, 'f) Simulation)
     = (a1, a2, a3, a4, a5, a6, a7, a8, a9, a10, a11, a12) \<and>
   Simulation_init base a1 a2 a3 a4 a5 a6 a7 a8 a9 a10 a11 a12 =
     base (Simulation_init_body a1 a2 a3 a4 a5 a6 a7 a8 a9 a10 a11 a12
       :: ('c, 'dx, 'f) Simulation) \<and>
   ((\<forall>s. \<exists>s'. base s = Inr s' \<and> parameters s' = parameters s) \<longrightarrow>
      (\<exists>self. Simulation_init base a1 a2 a3 a4 a5 a6 a7 a8 a9 a10 a11 a12 = Inr self \<and>
         parameters self = (a1, a2, a3, a4, a5, a6, a7, a8, a9, a10, a11, a12)))"
proof -
  have stored:
    "parameters (Simulation_init_body a1 a2 a3 a4 a5 a6 a7 a8 a9 a10 a11 a12
         :: ('c, 'dx, 'f) Simulation)
       = (a1, a2, a3, a4, a5, a6, a7, a8, a9, a10, a11, a12)"
    by (simp add: parameters_def Simulation_init_body_def)
  have passed_on:
    "Simulation_init base a1 a2 a3 a4 a5 a6 a7 a8 a9 a10 a11 a12 =
       base (Simulation_init_body a1 a2 a3 a4 a5 a6 a7 a8 a9 a10 a11 a12)"
    by (simp add: Simulation_init_def)
  show ?thesis using stored passed_on by metis
qed

theorem constructor_stores_every_argument_witness:
  "(\<forall>s :: (string, unit, unit) Simulation.
      \<exists>s'. (Inr s :: error + (string, unit, unit) Simulation) = Inr s' \<and>
        parameters s' = parameters s) \<and>
   (\<exists>self :: (string, unit, unit) Simulation.
      Simulation_init Inr 1 1 1 1 [0, - 1] 0 100000000 (1 / 10000000) 0 (1 / 100) 1 1
        = Inr self \<and>
      parameters self = (1, 1, 1, 1, [0, - 1], 0, 100000000, 1 / 10000000, 0, 1 / 100, 1, 1))"
  using constructor_stores_every_argument
    [of 1 1 1 1 "[0, - 1]" 0 100000000 "1 / 10000000" 0 "1 / 100" 1 1
        "Inr :: (string, unit, unit) Simulation \<Rightarrow> error + (string, unit, unit) Simulation"]
  by simp

text \<open>
  C9. A call of \<open>update_element\<close> or of \<open>update_governing_form\<close>, whether it returns or
  raises, leaves the twelve parameter attributes as they were, and so does every sequence of
  such calls interleaved with the attributes the base class supplies.
\<close>

theorem parameters_unchanged_by_updates:
  "parameters (after (update_element self)) = parameters self \<and>
   parameters (after (update_governing_form self)) = parameters self \<and>
   parameters (run evs self) = parameters self"
  by (simp add: parameters_update_element parameters_update_governing_form parameters_run)

theorem parameters_unchanged_by_updates_witness:
  "geometric_dimension example_w_n = geometric_dimension example_w \<and>
   length (gravity example_simulation) = geometric_dimension example_w \<and>
   parameters (after (update_element example_simulation)) =
     (1, 1, 1, 1, [0, - 1], 1, 100000000, 1 / 10000000, 0, 1 / 100, 1, 1) \<and>
   parameters (after (update_governing_form example_simulation)) =
     (1, 1, 1, 1, [0, - 1], 1, 100000000, 1 / 10000000, 0, 1 / 100, 1, 1) \<and>
   parameters (run [Call_update_element, Call_update_governing_form, Call_update_element]
       example_simulation) =
     (1, 1, 1, 1, [0, - 1], 1, 100000000, 1 / 10000000, 0, 1 / 100, 1, 1)"
proof -
  have initial: "parameters example_simulation =
      (1, 1, 1, 1, [0, - 1], 1, 100000000, 1 / 10000000, 0, 1 / 100, 1, 1)"
    by (simp add: parameters_def example_simulation_def default_body_def
        Simulation_init_body_def)
  show ?thesis
    using initial
      parameters_unchanged_by_updates
        [of example_simulation
            "[Call_update_element, Call_update_governing_form, Call_update_element]"]
    by (simp add: example_attributes)
qed

text \<open>
  C10. Take an object as the constructor's own statements leave it and let any sequence of
  events act on it. If no event of the sequence is a call of \<open>update_governing_form\<close>, then
  \<open>semi_phasefield_mapping\<close> is \<open>None\<close>; if one is, then \<open>semi_phasefield_mapping\<close> is the
  function \<open>phi\<close> with the regularization constants of the constructor's arguments.
\<close>

theorem mapping_is_None_until_form_assembly:
  "(Call_update_governing_form \<notin> set evs \<longrightarrow>
      semi_phasefield_mapping
        (run evs (Simulation_init_body a1 a2 a3 a4 a5 a6 a7 a8 a9 a10 a11 a12)) = None) \<and>
   (Call_update_governing_form \<in> set evs \<longrightarrow>
      semi_phasefield_mapping
        (run evs (Simulation_init_body a1 a2 a3 a4 a5 a6 a7 a8 a9 a10 a11 a12)) =
      Some (phi (Constant (Scalar a9)) (Constant (Scalar a10))))"
  by (simp add: mapping_run) (simp add: Simulation_init_body_def)

theorem mapping_is_None_until_form_assembly_witness:
  "Call_update_governing_form \<notin>
     set [Supply_mesh \<lparr>ufl_cell = ''triangle''\<rparr>, Call_update_element
            :: (string, unit, string Function) event] \<and>
   semi_phasefield_mapping
     (run [Supply_mesh \<lparr>ufl_cell = ''triangle''\<rparr>, Call_update_element]
        (default_body :: (string, unit, string Function) Simulation)) = None \<and>
   Call_update_governing_form \<in>
     set [Call_update_element, Call_update_governing_form :: (string, unit, string Function) event] \<and>
   semi_phasefield_mapping
     (run [Call_update_element, Call_update_governing_form]
        (default_body :: (string, unit, string Function) Simulation)) =
     Some (phi (Constant (Scalar 0)) (Constant (Scalar (1 / 100))))"
  using
    mapping_is_None_until_form_assembly
      [of "[Supply_mesh \<lparr>ufl_cell = ''triangle''\<rparr>, Call_update_element
              :: (string, unit, string Function) event]"
          1 1 1 1 "[0, - 1]" 1 100000000 "1 / 10000000" 0 "1 / 100" 1 1]
    mapping_is_None_until_form_assembly
      [of "[Call_update_element, Call_update_governing_form :: (string, unit, string Function) event]"
          1 1 1 1 "[0, - 1]" 1 100000000 "1 / 10000000" 0 "1 / 100" 1 1]
  by (simp add: default_body_def)

section \<open>The phase indicator\<close>

lemma eval_phase_indicator:
  "eval E e = Some (Scalar t) \<Longrightarrow> regularization_smoothing_parameter self \<noteq> 0 \<Longrightarrow>
   eval E (phase_indicator self e) =
     Some (Scalar (phi_spec (regularization_central_temperature self)
                            (regularization_smoothing_parameter self) t))"
  by (simp add: phase_indicator_def phi_def phi_spec_def)

lemma phi_spec_at_bot:
  assumes r: "0 < r"
  shows "(phi_spec T_r r \<longlongrightarrow> 1) at_bot"
proof -
  have up: "LIM T at_bot. - T :> (at_top :: real filter)"
    by (rule filterlim_uminus_at_top_at_bot)
  have shifted: "LIM T at_bot. T_r + - T :> at_top"
    by (rule filterlim_tendsto_add_at_top [OF tendsto_const up])
  have "0 < 1 / r" using r by simp
  then have scaled: "LIM T at_bot. (1 / r) * (T_r + - T) :> at_top"
    by (rule filterlim_tendsto_pos_mult_at_top [OF tendsto_const _ shifted])
  have "((\<lambda>T. tanh ((1 / r) * (T_r + - T))) \<longlongrightarrow> 1) at_bot"
    by (rule filterlim_compose [OF tanh_real_at_top scaled])
  then have "((\<lambda>T. 0.5 * (1 + tanh ((1 / r) * (T_r + - T)))) \<longlongrightarrow> 0.5 * (1 + 1)) at_bot"
    by (intro tendsto_intros)
  moreover have "(\<lambda>T. 0.5 * (1 + tanh ((1 / r) * (T_r + - T)))) = phi_spec T_r r"
    by (simp add: phi_spec_def fun_eq_iff)
  ultimately show ?thesis by simp
qed

lemma phi_spec_at_top:
  assumes r: "0 < r"
  shows "(phi_spec T_r r \<longlongrightarrow> 0) at_top"
proof -
  have shifted: "LIM T at_top. - T_r + T :> (at_top :: real filter)"
    by (rule filterlim_tendsto_add_at_top [OF tendsto_const filterlim_ident])
  have "0 < 1 / r" using r by simp
  then have scaled: "LIM T at_top. (1 / r) * (- T_r + T) :> at_top"
    by (rule filterlim_tendsto_pos_mult_at_top [OF tendsto_const _ shifted])
  have down: "LIM T at_top. - ((1 / r) * (- T_r + T)) :> at_bot"
    by (rule filterlim_compose [OF filterlim_uminus_at_bot_at_top scaled])
  have "((\<lambda>T. tanh (- ((1 / r) * (- T_r + T)))) \<longlongrightarrow> - 1) at_top"
    by (rule filterlim_compose [OF tanh_real_at_bot down])
  then have
    "((\<lambda>T. 0.5 * (1 + tanh (- ((1 / r) * (- T_r + T))))) \<longlongrightarrow> 0.5 * (1 + - 1)) at_top"
    by (intro tendsto_intros)
  moreover have "(\<lambda>T. 0.5 * (1 + tanh (- ((1 / r) * (- T_r + T))))) = phi_spec T_r r"
    by (simp add: phi_spec_def fun_eq_iff algebra_simps diff_divide_distrib)
  ultimately show ?thesis by simp
qed

lemma phi_spec_centre: "phi_spec T_r r T_r = 1 / 2"
  by (simp add: phi_spec_def)

text \<open>
  C2. With a smoothing parameter \<open>r > 0\<close> and any centre \<open>T_r\<close>, the mapping that
  \<open>update_governing_form\<close> stores sends a temperature of value \<open>t\<close> to an expression of
  value \<open>0.5 * (1 + tanh ((T_r - t) / r))\<close>; that function of \<open>t\<close> tends to 1 as \<open>t\<close> tends
  to minus infinity and to 0 as \<open>t\<close> tends to plus infinity, and the mapping applied to the
  centre temperature has the value 0.5 exactly.
\<close>

theorem phase_indicator_limits_and_centre:
  assumes "0 < regularization_smoothing_parameter self"
  shows "\<exists>f. semi_phasefield_mapping (after (update_governing_form self)) = Some f \<and>
     (\<forall>e t. eval E e = Some (Scalar t) \<longrightarrow>
        eval E (f e) = Some (Scalar (phi_spec (regularization_central_temperature self)
                            (regularization_smoothing_parameter self) t))) \<and>
     (phi_spec (regularization_central_temperature self)
               (regularization_smoothing_parameter self) \<longlongrightarrow> 1) at_bot \<and>
     (phi_spec (regularization_central_temperature self)
               (regularization_smoothing_parameter self) \<longlongrightarrow> 0) at_top \<and>
     eval E (f (FloatValue (regularization_central_temperature self))) = Some (Scalar (1 / 2))"
proof -
  have nz: "regularization_smoothing_parameter self \<noteq> 0" using assms by simp
  have stored:
    "semi_phasefield_mapping (after (update_governing_form self)) = Some (phase_indicator self)"
    by (simp add: mapping_update_governing_form phase_indicator_def)
  have centre:
    "eval E (phase_indicator self (FloatValue (regularization_central_temperature self))) =
       Some (Scalar (1 / 2))"
    using eval_phase_indicator
      [of E "FloatValue (regularization_central_temperature self)"
          "regularization_central_temperature self" self] nz
    by (simp add: phi_spec_centre)
  show ?thesis
    using stored centre nz phi_spec_at_bot [OF assms] phi_spec_at_top [OF assms]
    by (simp add: eval_phase_indicator)
qed

theorem phase_indicator_limits_and_centre_witness:
  "0 < regularization_smoothing_parameter example_simulation \<and>
   (\<exists>f. semi_phasefield_mapping (after (update_governing_form example_simulation)) = Some f \<and>
      eval example_point (f (FloatValue 0)) = Some (Scalar (1 / 2)) \<and>
      eval example_point (f (Split example_w 2)) = Some (Scalar (phi_spec 0 (1 / 100) 1)) \<and>
      (phi_spec 0 (1 / 100) \<longlongrightarrow> 1) at_bot \<and> (phi_spec 0 (1 / 100) \<longlongrightarrow> 0) at_top)"
proof -
  have h: "0 < regularization_smoothing_parameter example_simulation"
    by (simp add: example_attributes)
  have T: "eval example_point (Split example_w 2) = Some (Scalar 1)"
    by (simp add: example_point_def example_w_def)
  show ?thesis
    using h T phase_indicator_limits_and_centre [OF h, of example_point]
    by (auto simp add: example_attributes)
qed

section \<open>The governing form\<close>

lemma update_governing_form_refuses:
  assumes "integration_metric self = Some dx" "state self = Some st" "old_state self = Some st_n"
    and "geometric_dimension (solution st_n) \<noteq> geometric_dimension (solution st) \<or>
         length (gravity self) \<noteq> geometric_dimension (solution st)"
  shows "update_governing_form self =
      Inl (UFLException, self\<lparr>semi_phasefield_mapping :=
        Some (phi (Constant (Scalar (regularization_central_temperature self)))
                  (Constant (Scalar (regularization_smoothing_parameter self))))\<rparr>)"
    and "integrand_of (update_governing_form self) = None"
  using assms by (auto simp add: update_governing_form_def integrand_of_def Let_def)

lemma integrand_of_update_governing_form:
  assumes "integration_metric self = Some dx" "state self = Some st" "old_state self = Some st_n"
    and "geometric_dimension (solution st) = d" "geometric_dimension (solution st_n) = d"
    and "length (gravity self) = d"
  shows "integrand_of (update_governing_form self) =
    Some (Sum (Sum (Sum (Sum (Sum (Sum
      (mass_term self (solution st))
      (Dot (TestFunctions (function_space (solution st)) 1)
         (Sum (time_derivative_of_velocity self (solution st) (solution st_n))
              (buoyancy self (Split (solution st) 2)))))
      (c_form (Split (solution st) 1) (Split (solution st) 1)
         (TestFunctions (function_space (solution st)) 1)))
      (b_form (TestFunctions (function_space (solution st)) 1) (Split (solution st) 0)))
      (a_form (viscosity self (phase_indicator self (Split (solution st) 2)))
         (Split (solution st) 1) (TestFunctions (function_space (solution st)) 1)))
      (energy_time_term self (solution st) (solution st_n)))
      (energy_transport_term self (solution st)))"
  using assms
  by (simp add: update_governing_form_def integrand_of_def Let_def mass_term_def
      time_derivative_of_velocity_def buoyancy_def viscosity_def phase_indicator_def
      energy_time_term_def energy_transport_term_def)

lemma tests_phi [simp]: "tests i (phi T_r r T) = (tests i T_r \<or> tests i r \<or> tests i T)"
  by (auto simp add: phi_def)

lemma tests_terms [simp]:
  "tests i (mass_term self w) = (i = 0)"
  "\<not> tests i (time_derivative_of_velocity self w w_n)"
  "\<not> tests i (buoyancy self (Split w j))"
  "\<not> tests i (viscosity self (phase_indicator self (Split w j)))"
  "tests i (energy_time_term self w w_n) = (i = 2)"
  "tests i (energy_transport_term self w) = (i = 2)"
  by (simp_all add: mass_term_def b_form_def time_derivative_of_velocity_def buoyancy_def
      f_B_def viscosity_def mu_def phase_indicator_def energy_time_term_def
      energy_transport_term_def)

lemma summands_terms [simp]:
  "summands (mass_term self w) = [mass_term self w]"
  "summands (energy_time_term self w w_n) = [energy_time_term self w w_n]"
  "summands (energy_transport_term self w) = [energy_transport_term self w]"
  "summands (c_form u z v) = [c_form u z v]"
  "summands (b_form u p) = [b_form u p]"
  "summands (a_form m u v) = [a_form m u v]"
  by (simp_all add: mass_term_def energy_time_term_def energy_transport_term_def c_form_def
      b_form_def a_form_def)

lemma tests_forms [simp]:
  "tests i (c_form u z v) = (tests i z \<or> tests i u \<or> tests i v)"
  "tests i (b_form u p) = (tests i u \<or> tests i p)"
  "tests i (a_form m u v) = (tests i m \<or> tests i u \<or> tests i v)"
  by (auto simp add: c_form_def b_form_def a_form_def D_form_def)

lemma length_scale_vec [simp]: "length (scale_vec k xs) = length xs"
  by (simp add: scale_vec_def)

lemma length_sub_vec [simp]: "length (sub_vec xs ys) = min (length xs) (length ys)"
  by (simp add: sub_vec_def)

lemma length_add_vec [simp]: "length (add_vec xs ys) = min (length xs) (length ys)"
  by (simp add: add_vec_def)

lemma length_mat_vec [simp]: "length (mat_vec m v) = length m"
  by (simp add: mat_vec_def)

lemma length_f_B_spec [simp]: "length (f_B_spec Ra Pr Re' g T) = length g"
  by (simp add: f_B_spec_def)

lemma map_length_sym_mat: "map length (sym_mat m) = replicate (length m) (length m)"
  by (simp add: sym_mat_def comp_def map_replicate_const)

lemma dot_vec_add:
  "length xs = length ys \<Longrightarrow> length ys = length zs \<Longrightarrow>
   dot_vec xs (add_vec ys zs) = dot_vec xs ys + dot_vec xs zs"
  by (induction xs ys zs rule: list_induct3) (simp_all add: dot_vec_def add_vec_def algebra_simps)

lemma wf_sample_square: "wf_sample d s \<Longrightarrow> square (velocity_grad s)"
  by (simp add: wf_sample_def square_def)

lemma wf_sample_rows:
  "wf_sample d s \<Longrightarrow> list_all (\<lambda>row. length row = length (velocity s)) (velocity_grad s)"
  by (simp add: wf_sample_def)

lemma eval_buoyancy:
  "eval E e = Some (Scalar t) \<Longrightarrow>
   eval E (buoyancy self e) =
     (if prandtl_number self = 0 then None
      else Some (Vector (f_B_spec (rayleigh_numer self) (prandtl_number self) 1 (gravity self) t)))"
  by (simp add: buoyancy_def f_B_def f_B_spec_def)

lemma eval_viscosity:
  "eval E e = Some (Scalar x) \<Longrightarrow>
   eval E (viscosity self e) =
     Some (Scalar (mu_spec (liquid_viscosity self) (solid_viscosity self) x))"
  by (simp add: viscosity_def mu_def mu_spec_def)

lemma eval_mass_term:
  assumes "wf_sample d (solution_at E w)"
  shows "eval E (mass_term self w) =
     Some (Scalar (b_spec (trace (velocity_grad (solution_at E w)))
                     (pressure (test_at E (function_space w)))
                   - pressure (test_at E (function_space w)) * penalty_parameter self
                       * pressure (solution_at E w)))"
  using wf_sample_square [OF assms]
  by (simp add: mass_term_def b_form_def b_spec_def)

lemma eval_b_form_test:
  assumes "wf_sample d (test_at E (function_space w))"
  shows "eval E (b_form (TestFunctions (function_space w) 1) (Split w 0)) =
     Some (Scalar (b_spec (trace (velocity_grad (test_at E (function_space w))))
                     (pressure (solution_at E w))))"
  using wf_sample_square [OF assms]
  by (simp add: b_form_def b_spec_def)

lemma eval_c_form:
  assumes "wf_sample d (solution_at E w)" "wf_sample d (test_at E (function_space w))"
  shows "eval E (c_form (Split w 1) (Split w 1) (TestFunctions (function_space w) 1)) =
     Some (Scalar (dot_vec (mat_vec (velocity_grad (solution_at E w)) (velocity (solution_at E w)))
                     (velocity (test_at E (function_space w)))))"
  using wf_sample_rows [OF assms(1)] assms
  by (simp add: c_form_def wf_sample_def)

lemma eval_a_form:
  assumes "wf_sample d (solution_at E w)" "wf_sample d (test_at E (function_space w))"
    and "eval E m = Some (Scalar x)"
  shows "eval E (a_form m (Split w 1) (TestFunctions (function_space w) 1)) =
     Some (Scalar (a_spec x (velocity_grad (solution_at E w))
                     (velocity_grad (test_at E (function_space w)))))"
  using wf_sample_square [OF assms(1)] wf_sample_square [OF assms(2)] assms
  by (simp add: a_form_def D_form_def a_spec_def map_length_sym_mat wf_sample_def)

lemma eval_time_derivative_of_velocity:
  assumes "wf_sample d (solution_at E w)" "wf_sample d (solution_at E w_n)"
    and "timestep_size self \<noteq> 0"
  shows "eval E (time_derivative_of_velocity self w w_n) =
     Some (Vector (scale_vec (1 / timestep_size self)
       (sub_vec (velocity (solution_at E w)) (velocity (solution_at E w_n)))))"
  using assms by (simp add: time_derivative_of_velocity_def wf_sample_def)

lemma eval_energy_time_term:
  assumes "timestep_size self \<noteq> 0" "stefan_number self \<noteq> 0"
    "regularization_smoothing_parameter self \<noteq> 0"
  shows "eval E (energy_time_term self w w_n) =
     Some (Scalar ((1 / timestep_size self) * temperature (test_at E (function_space w)) *
       (temperature (solution_at E w) - temperature (solution_at E w_n) -
          (1 / stefan_number self) *
            (phi_spec (regularization_central_temperature self)
               (regularization_smoothing_parameter self) (temperature (solution_at E w))
             - phi_spec (regularization_central_temperature self)
               (regularization_smoothing_parameter self) (temperature (solution_at E w_n))))))"
  using assms by (simp add: energy_time_term_def eval_phase_indicator)

lemma eval_energy_transport_term:
  assumes "wf_sample d (solution_at E w)" "wf_sample d (test_at E (function_space w))"
    and "prandtl_number self \<noteq> 0"
  shows "eval E (energy_transport_term self w) =
     Some (Scalar (dot_vec (temperature_grad (test_at E (function_space w)))
         (sub_vec (scale_vec (1 / prandtl_number self) (temperature_grad (solution_at E w)))
                  (scale_vec (temperature (solution_at E w)) (velocity (solution_at E w))))))"
  using assms by (simp add: energy_transport_term_def wf_sample_def)


lemma mu_spec_mono:
  "mu_L \<le> mu_S \<Longrightarrow> x \<le> y \<Longrightarrow> mu_spec mu_L mu_S x \<le> mu_spec mu_L mu_S y"
  by (simp add: mu_spec_def mult_left_mono)

lemma mu_spec_antimono:
  "mu_S \<le> mu_L \<Longrightarrow> x \<le> y \<Longrightarrow> mu_spec mu_L mu_S y \<le> mu_spec mu_L mu_S x"
  by (simp add: mu_spec_def mult_left_mono_neg)

lemma f_B_spec_linear:
  "f_B_spec Ra Pr Re' g (\<alpha> * s + \<beta> * t) =
     add_vec (scale_vec \<alpha> (f_B_spec Ra Pr Re' g s)) (scale_vec \<beta> (f_B_spec Ra Pr Re' g t))"
  by (simp add: f_B_spec_def scale_vec_def add_vec_def map2_map_map algebra_simps add_divide_distrib)

text \<open>
  C1. When the method can read its inputs, and the gravity list and the velocities of \<open>w\<close>
  and \<open>w_n\<close> have one dimension \<open>d\<close>, it returns, and the terms of the integrand tested
  with \<open>psi_T\<close> are the two of lines 154 and 155. At every point whose gradients have the
  dimension \<open>d\<close> their value is
  \<open>(1/Delta_t) * psi_T * (T - T_n - (1/Ste) * (phi T - phi T_n))\<close> plus
  \<open>grad psi_T . ((1/Pr) * grad T - T * u)\<close>, for every parameter configuration; when one of
  the denominators \<open>Delta_t\<close>, \<open>Ste\<close>, \<open>Pr\<close>, \<open>r\<close> is zero neither side has a value.
\<close>

theorem energy_part_is_implicit_Euler_with_latent_heat:
  assumes "integration_metric self = Some dx" "state self = Some st" "old_state self = Some st_n"
    and "wf_sample d (solution_at E (solution st))"
    and "wf_sample d (test_at E (function_space (solution st)))"
    and "geometric_dimension (solution st) = d" "geometric_dimension (solution st_n) = d"
    and "length (gravity self) = d"
  shows "\<exists>F. integrand_of (update_governing_form self) = Some F \<and>
     terms_testing 2 F = [energy_time_term self (solution st) (solution st_n),
                          energy_transport_term self (solution st)] \<and>
     terms_value E (terms_testing 2 F) =
       (if timestep_size self = 0 \<or> stefan_number self = 0 \<or> prandtl_number self = 0 \<or>
           regularization_smoothing_parameter self = 0
        then None
        else Some (energy_spec (timestep_size self) (stefan_number self) (prandtl_number self)
               (regularization_central_temperature self) (regularization_smoothing_parameter self)
               (test_at E (function_space (solution st)))
               (solution_at E (solution st)) (solution_at E (solution st_n))))"
proof -
  let ?e1 = "energy_time_term self (solution st) (solution st_n)"
  let ?e2 = "energy_transport_term self (solution st)"
  have val: "terms_value E [?e1, ?e2] =
       (if timestep_size self = 0 \<or> stefan_number self = 0 \<or> prandtl_number self = 0 \<or>
           regularization_smoothing_parameter self = 0
        then None
        else Some (energy_spec (timestep_size self) (stefan_number self) (prandtl_number self)
               (regularization_central_temperature self) (regularization_smoothing_parameter self)
               (test_at E (function_space (solution st)))
               (solution_at E (solution st)) (solution_at E (solution st_n))))"
  proof (cases "timestep_size self = 0 \<or> stefan_number self = 0 \<or> prandtl_number self = 0 \<or>
           regularization_smoothing_parameter self = 0")
    case False
    then show ?thesis
      using eval_energy_time_term [of self E "solution st" "solution st_n"]
        eval_energy_transport_term [OF assms(4,5), of self]
      by (simp add: energy_spec_def)
  next
    case True
    have "eval E ?e1 = None \<or> eval E ?e2 = None"
      using True assms(4,5)
      by (auto simp add: energy_time_term_def energy_transport_term_def phase_indicator_def
          phi_def wf_sample_def)
    then show ?thesis using True by (auto split: option.splits tensor.splits)
  qed
  show ?thesis
    using val
    by (simp add: integrand_of_update_governing_form [OF assms(1,2,3) assms(6,7,8)] terms_testing_def)
qed

theorem energy_part_is_implicit_Euler_with_latent_heat_witness:
  "integration_metric example_simulation = Some () \<and>
   state example_simulation = Some \<lparr>solution = example_w\<rparr> \<and>
   old_state example_simulation = Some \<lparr>solution = example_w_n\<rparr> \<and>
   geometric_dimension example_w = 2 \<and> geometric_dimension example_w_n = 2 \<and>
   length (gravity example_simulation) = 2 \<and>
   wf_sample 2 (solution_at example_point example_w) \<and>
   wf_sample 2 (test_at example_point (function_space example_w)) \<and>
   (\<exists>F. integrand_of (update_governing_form example_simulation) = Some F \<and>
      terms_value example_point (terms_testing 2 F) =
        Some (energy_spec 1 1 1 0 (1 / 100) (test_at example_point (function_space example_w))
               (solution_at example_point example_w) (solution_at example_point example_w_n)))"
  using energy_part_is_implicit_Euler_with_latent_heat
    [of example_simulation "()" "\<lparr>solution = example_w\<rparr>" "\<lparr>solution = example_w_n\<rparr>" 2 example_point]
  by (simp add: example_attributes example_wf) blast

lemma terms_value_None:
  "e \<in> set es \<Longrightarrow> eval E e = None \<Longrightarrow> terms_value E es = None"
  by (induction es) (auto split: option.splits tensor.splits)

lemma lift2_None [simp]: "lift2 f None y = None" "lift2 f x None = None"
  by (cases x; simp)+

lemma momentum_term_undefined:
  assumes "timestep_size self = 0 \<or> prandtl_number self = 0"
  shows "eval E (Dot (TestFunctions (function_space w) 1)
           (Sum (time_derivative_of_velocity self w w_n) (buoyancy self (Split w 2)))) = None"
proof -
  have "eval E (time_derivative_of_velocity self w w_n) = None \<or>
        eval E (buoyancy self (Split w 2)) = None"
    using assms eval_buoyancy [of E "Split w 2" "temperature (solution_at E w)" self]
    by (auto simp add: time_derivative_of_velocity_def)
  then show ?thesis by auto
qed

lemma viscous_term_undefined:
  assumes "regularization_smoothing_parameter self = 0"
  shows "eval E (a_form (viscosity self (phase_indicator self (Split w 2)))
           (Split w 1) (TestFunctions (function_space w) 1)) = None"
  using assms by (simp add: a_form_def viscosity_def mu_def phase_indicator_def phi_def)

lemma mass_momentum_undefined:
  assumes "integration_metric self = Some dx" "state self = Some st" "old_state self = Some st_n"
    and "timestep_size self = 0 \<or> prandtl_number self = 0 \<or>
         regularization_smoothing_parameter self = 0"
    and "geometric_dimension (solution st) = d" "geometric_dimension (solution st_n) = d"
    and "length (gravity self) = d"
  shows "\<exists>F. integrand_of (update_governing_form self) = Some F \<and>
     terms_value E (mass_momentum_terms F) = None"
proof -
  let ?w = "solution st" and ?w_n = "solution st_n"
  let ?t2 = "Dot (TestFunctions (function_space ?w) 1)
           (Sum (time_derivative_of_velocity self ?w ?w_n) (buoyancy self (Split ?w 2)))"
  let ?t5 = "a_form (viscosity self (phase_indicator self (Split ?w 2)))
           (Split ?w 1) (TestFunctions (function_space ?w) 1)"
  let ?ts = "[mass_term self ?w, ?t2,
        c_form (Split ?w 1) (Split ?w 1) (TestFunctions (function_space ?w) 1),
        b_form (TestFunctions (function_space ?w) 1) (Split ?w 0), ?t5]"
  have "eval E ?t2 = None \<or> eval E ?t5 = None"
  proof (cases "regularization_smoothing_parameter self = 0")
    case True
    show ?thesis by (rule disjI2) (rule viscous_term_undefined [OF True])
  next
    case False
    with assms(4) have zero: "timestep_size self = 0 \<or> prandtl_number self = 0" by simp
    show ?thesis by (rule disjI1) (rule momentum_term_undefined [OF zero])
  qed
  then have "terms_value E ?ts = None"
  proof
    assume "eval E ?t2 = None"
    then show ?thesis by (rule terms_value_None [rotated]) simp
  next
    assume "eval E ?t5 = None"
    then show ?thesis by (rule terms_value_None [rotated]) simp
  qed
  then show ?thesis
    by (simp add: integrand_of_update_governing_form [OF assms(1,2,3) assms(5,6,7)]
        mass_momentum_terms_def)
qed

lemma mass_momentum_value:
  assumes "integration_metric self = Some dx" "state self = Some st" "old_state self = Some st_n"
    and "wf_sample d (solution_at E (solution st))"
    and "wf_sample d (solution_at E (solution st_n))"
    and "wf_sample d (test_at E (function_space (solution st)))"
    and "length (gravity self) = d"
    and "timestep_size self \<noteq> 0" "prandtl_number self \<noteq> 0"
    and "regularization_smoothing_parameter self \<noteq> 0"
    and "geometric_dimension (solution st) = d" "geometric_dimension (solution st_n) = d"
  shows "\<exists>F m td cv. integrand_of (update_governing_form self) = Some F \<and>
     mass_momentum_terms F =
       [mass_term self (solution st),
        Dot (TestFunctions (function_space (solution st)) 1)
         (Sum (time_derivative_of_velocity self (solution st) (solution st_n))
              (buoyancy self (Split (solution st) 2))),
        c_form (Split (solution st) 1) (Split (solution st) 1)
         (TestFunctions (function_space (solution st)) 1),
        b_form (TestFunctions (function_space (solution st)) 1) (Split (solution st) 0),
        a_form (viscosity self (phase_indicator self (Split (solution st) 2)))
         (Split (solution st) 1) (TestFunctions (function_space (solution st)) 1)] \<and>
     terms_value E (mass_momentum_terms F) = Some m \<and>
     eval E (Dot (TestFunctions (function_space (solution st)) 1)
               (time_derivative_of_velocity self (solution st) (solution st_n))) = Some (Scalar td) \<and>
     eval E (c_form (Split (solution st) 1) (Split (solution st) 1)
               (TestFunctions (function_space (solution st)) 1)) = Some (Scalar cv) \<and>
     m - td - cv =
       stokes_spec (penalty_parameter self) (liquid_viscosity self) (solid_viscosity self)
         (regularization_central_temperature self) (regularization_smoothing_parameter self)
         (rayleigh_numer self) (prandtl_number self) 1 (gravity self)
         (test_at E (function_space (solution st))) (solution_at E (solution st))"
proof -
  let ?w = "solution st" and ?w_n = "solution st_n"
  let ?s = "solution_at E ?w" and ?s_n = "solution_at E ?w_n"
  let ?q = "test_at E (function_space ?w)"
  let ?psi_u = "TestFunctions (function_space ?w) 1"
  let ?dudt = "scale_vec (1 / timestep_size self) (sub_vec (velocity ?s) (velocity ?s_n))"
  let ?f = "f_B_spec (rayleigh_numer self) (prandtl_number self) 1 (gravity self) (temperature ?s)"
  have len: "length (velocity ?s) = d" "length (velocity ?s_n) = d" "length (velocity ?q) = d"
    using assms(4,5,6) by (simp_all add: wf_sample_def)
  have T: "eval E (Split ?w 2) = Some (Scalar (temperature ?s))" by simp
  have psi: "eval E ?psi_u = Some (Vector (velocity ?q))" by simp
  have dudt: "eval E (time_derivative_of_velocity self ?w ?w_n) = Some (Vector ?dudt)"
    by (rule eval_time_derivative_of_velocity [OF assms(4,5,8)])
  have f: "eval E (buoyancy self (Split ?w 2)) = Some (Vector ?f)"
    using eval_buoyancy [OF T, of self] assms(9) by simp
  have td: "eval E (Dot ?psi_u (time_derivative_of_velocity self ?w ?w_n)) =
      Some (Scalar (dot_vec (velocity ?q) ?dudt))"
    using psi dudt len by simp
  have momentum: "eval E (Dot ?psi_u (Sum (time_derivative_of_velocity self ?w ?w_n)
        (buoyancy self (Split ?w 2)))) =
      Some (Scalar (dot_vec (velocity ?q) ?dudt + dot_vec (velocity ?q) ?f))"
    using psi dudt f len assms(7) by (simp add: dot_vec_add)
  have phase: "eval E (phase_indicator self (Split ?w 2)) =
      Some (Scalar (phi_spec (regularization_central_temperature self)
         (regularization_smoothing_parameter self) (temperature ?s)))"
    by (rule eval_phase_indicator [OF T assms(10)])
  have visc: "eval E (viscosity self (phase_indicator self (Split ?w 2))) =
      Some (Scalar (mu_spec (liquid_viscosity self) (solid_viscosity self)
         (phi_spec (regularization_central_temperature self)
           (regularization_smoothing_parameter self) (temperature ?s))))"
    by (rule eval_viscosity [OF phase])
  show ?thesis
    using td momentum
      eval_mass_term [OF assms(4), of self]
      eval_c_form [OF assms(4,6)]
      eval_b_form_test [OF assms(6)]
      eval_a_form [OF assms(4,6) visc]
    by (simp add: integrand_of_update_governing_form [OF assms(1,2,3) assms(11,12) assms(7)]
        mass_momentum_terms_def
        stokes_spec_def)
qed

text \<open>
  C5. When the method can read its inputs, and the gravity list and the velocities of \<open>w\<close>
  and \<open>w_n\<close> have the dimension \<open>d\<close> of the point, it returns, and the terms of the
  integrand tested with \<open>psi_p\<close> or \<open>psi_u\<close> are the five of lines 151 to 153. Taking away from their value the value of the time-derivative term
  \<open>psi_u . (1/Delta_t) * (u - u_n)\<close> and of the convection term \<open>c(u, u, psi_u)\<close> leaves
  the steady Stokes form
  \<open>b(u, psi_p) - gamma * psi_p * p + b(psi_u, p) + a(mu(phi(T)), u, psi_u) + psi_u . f_B(T)\<close>,
  for every parameter configuration; when one of the denominators \<open>Delta_t\<close>, \<open>Pr\<close>, \<open>r\<close>
  is zero the terms have no value.
\<close>

theorem mass_momentum_part_reduces_to_Stokes:
  assumes "integration_metric self = Some dx" "state self = Some st" "old_state self = Some st_n"
    and "wf_sample d (solution_at E (solution st))"
    and "wf_sample d (solution_at E (solution st_n))"
    and "wf_sample d (test_at E (function_space (solution st)))"
    and "length (gravity self) = d"
    and "geometric_dimension (solution st) = d" "geometric_dimension (solution st_n) = d"
  shows "\<exists>F. integrand_of (update_governing_form self) = Some F \<and>
     mass_momentum_terms F =
       [mass_term self (solution st),
        Dot (TestFunctions (function_space (solution st)) 1)
         (Sum (time_derivative_of_velocity self (solution st) (solution st_n))
              (buoyancy self (Split (solution st) 2))),
        c_form (Split (solution st) 1) (Split (solution st) 1)
         (TestFunctions (function_space (solution st)) 1),
        b_form (TestFunctions (function_space (solution st)) 1) (Split (solution st) 0),
        a_form (viscosity self (phase_indicator self (Split (solution st) 2)))
         (Split (solution st) 1) (TestFunctions (function_space (solution st)) 1)] \<and>
     (timestep_size self = 0 \<or> prandtl_number self = 0 \<or>
        regularization_smoothing_parameter self = 0 \<longrightarrow>
        terms_value E (mass_momentum_terms F) = None) \<and>
     (timestep_size self \<noteq> 0 \<and> prandtl_number self \<noteq> 0 \<and>
        regularization_smoothing_parameter self \<noteq> 0 \<longrightarrow>
        (\<exists>m td cv.
           terms_value E (mass_momentum_terms F) = Some m \<and>
           eval E (Dot (TestFunctions (function_space (solution st)) 1)
                     (time_derivative_of_velocity self (solution st) (solution st_n)))
             = Some (Scalar td) \<and>
           eval E (c_form (Split (solution st) 1) (Split (solution st) 1)
                     (TestFunctions (function_space (solution st)) 1)) = Some (Scalar cv) \<and>
           m - td - cv =
             stokes_spec (penalty_parameter self) (liquid_viscosity self) (solid_viscosity self)
               (regularization_central_temperature self)
               (regularization_smoothing_parameter self)
               (rayleigh_numer self) (prandtl_number self) 1 (gravity self)
               (test_at E (function_space (solution st))) (solution_at E (solution st))))"
proof -
  let ?listed = "[mass_term self (solution st),
        Dot (TestFunctions (function_space (solution st)) 1)
         (Sum (time_derivative_of_velocity self (solution st) (solution st_n))
              (buoyancy self (Split (solution st) 2))),
        c_form (Split (solution st) 1) (Split (solution st) 1)
         (TestFunctions (function_space (solution st)) 1),
        b_form (TestFunctions (function_space (solution st)) 1) (Split (solution st) 0),
        a_form (viscosity self (phase_indicator self (Split (solution st) 2)))
         (Split (solution st) 1) (TestFunctions (function_space (solution st)) 1)]"
  let ?time = "Dot (TestFunctions (function_space (solution st)) 1)
                 (time_derivative_of_velocity self (solution st) (solution st_n))"
  let ?convection = "c_form (Split (solution st) 1) (Split (solution st) 1)
                       (TestFunctions (function_space (solution st)) 1)"
  let ?stokes =
    "stokes_spec (penalty_parameter self) (liquid_viscosity self) (solid_viscosity self)
       (regularization_central_temperature self) (regularization_smoothing_parameter self)
       (rayleigh_numer self) (prandtl_number self) 1 (gravity self)
       (test_at E (function_space (solution st))) (solution_at E (solution st))"
  obtain F where F: "integrand_of (update_governing_form self) = Some F"
    by (simp add: integrand_of_update_governing_form [OF assms(1,2,3) assms(8,9) assms(7)])
  have listed: "mass_momentum_terms F = ?listed"
    using F
    by (auto simp add: integrand_of_update_governing_form [OF assms(1,2,3) assms(8,9) assms(7)]
        mass_momentum_terms_def)
  have undefined_case:
    "timestep_size self = 0 \<or> prandtl_number self = 0 \<or>
       regularization_smoothing_parameter self = 0 \<longrightarrow>
     terms_value E (mass_momentum_terms F) = None"
  proof
    assume zero: "timestep_size self = 0 \<or> prandtl_number self = 0 \<or>
       regularization_smoothing_parameter self = 0"
    from mass_momentum_undefined [OF assms(1,2,3) zero assms(8,9) assms(7), of E]
    obtain F' where "integrand_of (update_governing_form self) = Some F'"
      and none: "terms_value E (mass_momentum_terms F') = None"
      by blast
    with F have "F' = F" by simp
    with none show "terms_value E (mass_momentum_terms F) = None" by simp
  qed
  have defined_case:
    "timestep_size self \<noteq> 0 \<and> prandtl_number self \<noteq> 0 \<and>
       regularization_smoothing_parameter self \<noteq> 0 \<longrightarrow>
     (\<exists>m td cv.
        terms_value E (mass_momentum_terms F) = Some m \<and>
        eval E ?time = Some (Scalar td) \<and>
        eval E ?convection = Some (Scalar cv) \<and>
        m - td - cv = ?stokes)"
  proof
    assume nonzero: "timestep_size self \<noteq> 0 \<and> prandtl_number self \<noteq> 0 \<and>
       regularization_smoothing_parameter self \<noteq> 0"
    then have nz: "timestep_size self \<noteq> 0" "prandtl_number self \<noteq> 0"
      "regularization_smoothing_parameter self \<noteq> 0"
      by simp_all
    from mass_momentum_value [OF assms(1-7) nz assms(8,9)]
    obtain F' m td cv where "integrand_of (update_governing_form self) = Some F'"
      and rest: "terms_value E (mass_momentum_terms F') = Some m"
        "eval E ?time = Some (Scalar td)" "eval E ?convection = Some (Scalar cv)"
        "m - td - cv = ?stokes"
      by blast
    with F have "F' = F" by simp
    with rest show "\<exists>m td cv.
        terms_value E (mass_momentum_terms F) = Some m \<and>
        eval E ?time = Some (Scalar td) \<and>
        eval E ?convection = Some (Scalar cv) \<and>
        m - td - cv = ?stokes"
      by blast
  qed
  from F listed undefined_case defined_case show ?thesis by blast
qed

theorem mass_momentum_part_reduces_to_Stokes_witness:
  "integration_metric example_simulation = Some () \<and>
   state example_simulation = Some \<lparr>solution = example_w\<rparr> \<and>
   old_state example_simulation = Some \<lparr>solution = example_w_n\<rparr> \<and>
   geometric_dimension example_w = 2 \<and> geometric_dimension example_w_n = 2 \<and>
   length (gravity example_simulation) = 2 \<and>
   wf_sample 2 (solution_at example_point example_w) \<and>
   wf_sample 2 (solution_at example_point example_w_n) \<and>
   wf_sample 2 (test_at example_point (function_space example_w)) \<and>
   timestep_size example_simulation \<noteq> 0 \<and> prandtl_number example_simulation \<noteq> 0 \<and>
   regularization_smoothing_parameter example_simulation \<noteq> 0 \<and>
   (\<exists>F m td cv. integrand_of (update_governing_form example_simulation) = Some F \<and>
      terms_value example_point (mass_momentum_terms F) = Some m \<and>
      eval example_point (Dot (TestFunctions (function_space example_w) 1)
        (time_derivative_of_velocity example_simulation example_w example_w_n)) = Some (Scalar td) \<and>
      eval example_point (c_form (Split example_w 1) (Split example_w 1)
        (TestFunctions (function_space example_w) 1)) = Some (Scalar cv) \<and>
      m - td - cv =
        stokes_spec (1 / 10000000) 1 100000000 0 (1 / 100) 1 1 1 [0, - 1]
          (test_at example_point (function_space example_w)) (solution_at example_point example_w)) \<and>
   prandtl_number (example_simulation\<lparr>prandtl_number := 0\<rparr>) = 0 \<and>
   (\<exists>F. integrand_of (update_governing_form (example_simulation\<lparr>prandtl_number := 0\<rparr>))
          = Some F \<and>
      terms_value example_point (mass_momentum_terms F) = None)"
proof -
  have defined_case:
    "\<exists>F m td cv. integrand_of (update_governing_form example_simulation) = Some F \<and>
      terms_value example_point (mass_momentum_terms F) = Some m \<and>
      eval example_point (Dot (TestFunctions (function_space example_w) 1)
        (time_derivative_of_velocity example_simulation example_w example_w_n)) = Some (Scalar td) \<and>
      eval example_point (c_form (Split example_w 1) (Split example_w 1)
        (TestFunctions (function_space example_w) 1)) = Some (Scalar cv) \<and>
      m - td - cv =
        stokes_spec (1 / 10000000) 1 100000000 0 (1 / 100) 1 1 1 [0, - 1]
          (test_at example_point (function_space example_w)) (solution_at example_point example_w)"
    using mass_momentum_part_reduces_to_Stokes
      [of example_simulation "()" "\<lparr>solution = example_w\<rparr>" "\<lparr>solution = example_w_n\<rparr>" 2
          example_point]
    by (simp add: example_attributes example_wf) blast
  have undefined_case:
    "\<exists>F. integrand_of (update_governing_form (example_simulation\<lparr>prandtl_number := 0\<rparr>))
          = Some F \<and>
      terms_value example_point (mass_momentum_terms F) = None"
    using mass_momentum_part_reduces_to_Stokes
      [of "example_simulation\<lparr>prandtl_number := 0\<rparr>" "()" "\<lparr>solution = example_w\<rparr>"
          "\<lparr>solution = example_w_n\<rparr>" 2 example_point]
    by (simp add: example_attributes example_wf) blast
  show ?thesis
    using defined_case undefined_case by (simp add: example_attributes example_wf)
qed

lemma viscous_term_in_integrand:
  assumes "integration_metric self = Some dx" "state self = Some st" "old_state self = Some st_n"
    and "geometric_dimension (solution st) = d" "geometric_dimension (solution st_n) = d"
    and "length (gravity self) = d"
  shows "\<exists>F. integrand_of (update_governing_form self) = Some F \<and>
     a_form (viscosity self (phase_indicator self (Split (solution st) 2)))
       (Split (solution st) 1) (TestFunctions (function_space (solution st)) 1)
     \<in> set (summands F)"
  by (simp add: integrand_of_update_governing_form [OF assms])

lemma buoyancy_term_in_integrand:
  assumes "integration_metric self = Some dx" "state self = Some st" "old_state self = Some st_n"
    and "geometric_dimension (solution st) = d" "geometric_dimension (solution st_n) = d"
    and "length (gravity self) = d"
  shows "\<exists>F. integrand_of (update_governing_form self) = Some F \<and>
     Dot (TestFunctions (function_space (solution st)) 1)
       (Sum (time_derivative_of_velocity self (solution st) (solution st_n))
            (buoyancy self (Split (solution st) 2)))
     \<in> set (summands F)"
  by (simp add: integrand_of_update_governing_form [OF assms])

section \<open>The viscosity and the buoyancy\<close>

text \<open>
  C3. The blend \<open>mu\<close> of \<open>update_governing_form\<close> has the value \<open>mu_L\<close> at phase indicator
  0 and \<open>mu_S\<close> at 1; at a phase indicator of value \<open>x\<close> it has the value
  \<open>mu_L + (mu_S - mu_L) * x\<close>, which on the interval from 0 to 1 does not decrease in \<open>x\<close>
  when \<open>mu_L \<le> mu_S\<close> and does not increase when \<open>mu_S \<le> mu_L\<close>. When a form is
  assembled, which needs the inputs present and the gravity list and both velocities of one
  dimension, its viscous term is \<open>a\<close> applied to this blend of the phase indicator of the
  temperature.
\<close>

theorem viscosity_blend_endpoints_and_monotone:
  "eval E (viscosity self (FloatValue 0)) = Some (Scalar (liquid_viscosity self)) \<and>
   eval E (viscosity self (FloatValue 1)) = Some (Scalar (solid_viscosity self)) \<and>
   (\<forall>e x. eval E e = Some (Scalar x) \<longrightarrow>
      eval E (viscosity self e) =
        Some (Scalar (mu_spec (liquid_viscosity self) (solid_viscosity self) x))) \<and>
   (liquid_viscosity self \<le> solid_viscosity self \<longrightarrow>
      (\<forall>x y. 0 \<le> x \<and> x \<le> y \<and> y \<le> 1 \<longrightarrow>
         mu_spec (liquid_viscosity self) (solid_viscosity self) x
           \<le> mu_spec (liquid_viscosity self) (solid_viscosity self) y)) \<and>
   (solid_viscosity self \<le> liquid_viscosity self \<longrightarrow>
      (\<forall>x y. 0 \<le> x \<and> x \<le> y \<and> y \<le> 1 \<longrightarrow>
         mu_spec (liquid_viscosity self) (solid_viscosity self) y
           \<le> mu_spec (liquid_viscosity self) (solid_viscosity self) x)) \<and>
   (integration_metric self = Some dx \<and> state self = Some st \<and> old_state self = Some st_n \<and>
    geometric_dimension (solution st_n) = geometric_dimension (solution st) \<and>
    length (gravity self) = geometric_dimension (solution st) \<longrightarrow>
      (\<exists>F. integrand_of (update_governing_form self) = Some F \<and>
         a_form (viscosity self (phase_indicator self (Split (solution st) 2)))
           (Split (solution st) 1) (TestFunctions (function_space (solution st)) 1)
         \<in> set (summands F)))"
proof -
  have ends:
    "eval E (viscosity self (FloatValue 0)) = Some (Scalar (liquid_viscosity self))"
    "eval E (viscosity self (FloatValue 1)) = Some (Scalar (solid_viscosity self))"
    by (simp_all add: eval_viscosity mu_spec_def)
  have used:
    "integration_metric self = Some dx \<and> state self = Some st \<and> old_state self = Some st_n \<and>
     geometric_dimension (solution st_n) = geometric_dimension (solution st) \<and>
     length (gravity self) = geometric_dimension (solution st) \<longrightarrow>
      (\<exists>F. integrand_of (update_governing_form self) = Some F \<and>
         a_form (viscosity self (phase_indicator self (Split (solution st) 2)))
           (Split (solution st) 1) (TestFunctions (function_space (solution st)) 1)
         \<in> set (summands F))"
    using viscous_term_in_integrand
      [of self dx st st_n "geometric_dimension (solution st)"]
    by blast
  show ?thesis
    using ends used
    by (simp add: eval_viscosity mu_spec_mono mu_spec_antimono)
qed

theorem viscosity_blend_endpoints_and_monotone_witness:
  "liquid_viscosity example_simulation \<le> solid_viscosity example_simulation \<and>
   (0::real) \<le> 1 / 4 \<and> (1::real) / 4 \<le> 1 / 2 \<and> (1::real) / 2 \<le> 1 \<and>
   eval example_point (FloatValue (1 / 4)) = Some (Scalar (1 / 4)) \<and>
   eval example_point (viscosity example_simulation (FloatValue (1 / 4))) =
     Some (Scalar (mu_spec 1 100000000 (1 / 4))) \<and>
   mu_spec 1 100000000 (1 / 4) \<le> mu_spec 1 100000000 (1 / 2) \<and>
   solid_viscosity (example_simulation\<lparr>solid_viscosity := 1 / 2\<rparr>)
     \<le> liquid_viscosity (example_simulation\<lparr>solid_viscosity := 1 / 2\<rparr>) \<and>
   mu_spec 1 (1 / 2) (1 / 2) \<le> mu_spec 1 (1 / 2) (1 / 4) \<and>
   integration_metric example_simulation = Some () \<and>
   state example_simulation = Some \<lparr>solution = example_w\<rparr> \<and>
   old_state example_simulation = Some \<lparr>solution = example_w_n\<rparr> \<and>
   geometric_dimension example_w = 2 \<and> geometric_dimension example_w_n = 2 \<and>
   length (gravity example_simulation) = 2 \<and>
   (\<exists>F. integrand_of (update_governing_form example_simulation) = Some F \<and>
      a_form (viscosity example_simulation (phase_indicator example_simulation (Split example_w 2)))
        (Split example_w 1) (TestFunctions (function_space example_w) 1) \<in> set (summands F))"
  using
    viscosity_blend_endpoints_and_monotone
      [of example_point example_simulation "()" "\<lparr>solution = example_w\<rparr>" "\<lparr>solution = example_w_n\<rparr>"]
    viscosity_blend_endpoints_and_monotone
      [of example_point "example_simulation\<lparr>solid_viscosity := 1 / 2\<rparr>" "()"
          "\<lparr>solution = example_w\<rparr>" "\<lparr>solution = example_w_n\<rparr>"]
  by (simp add: example_attributes)

text \<open>
  C6. For every parameter configuration the buoyancy force that \<open>update_governing_form\<close>
  builds for a temperature \<open>T\<close> is the expression \<open>T*Ra/(Pr*Re**2)*g\<close> with \<open>Re\<close> the
  constant 1. At a temperature of value \<open>t\<close> its value is the vector
  \<open>(t * Ra / (Pr * Re\<^sup>2)) g\<close>, unless \<open>Pr\<close> is zero, when it has none; that vector is linear
  in \<open>t\<close> and is \<open>t\<close> times the vector at temperature 1. When a form is assembled, which
  needs the inputs present and the gravity list and both velocities of one dimension, its
  momentum term contains this force at the temperature of the solution.
\<close>

theorem buoyancy_proportional_to_temperature:
  "buoyancy self T =
     Product (Division (Product T (Constant (Scalar (rayleigh_numer self))))
                (Product (Constant (Scalar (prandtl_number self)))
                   (Power (Constant (Scalar 1)) (IntValue 2))))
       (Constant (Vector (gravity self))) \<and>
   (\<forall>e t. eval E e = Some (Scalar t) \<longrightarrow>
      eval E (buoyancy self e) =
        (if prandtl_number self = 0 then None
         else Some (Vector (f_B_spec (rayleigh_numer self) (prandtl_number self) 1
                              (gravity self) t)))) \<and>
   (\<forall>\<alpha> \<beta> s t.
      f_B_spec (rayleigh_numer self) (prandtl_number self) 1 (gravity self) (\<alpha> * s + \<beta> * t) =
        add_vec
          (scale_vec \<alpha> (f_B_spec (rayleigh_numer self) (prandtl_number self) 1 (gravity self) s))
          (scale_vec \<beta> (f_B_spec (rayleigh_numer self) (prandtl_number self) 1 (gravity self) t))) \<and>
   (\<forall>t. f_B_spec (rayleigh_numer self) (prandtl_number self) 1 (gravity self) t =
      scale_vec t (f_B_spec (rayleigh_numer self) (prandtl_number self) 1 (gravity self) 1)) \<and>
   (integration_metric self = Some dx \<and> state self = Some st \<and> old_state self = Some st_n \<and>
    geometric_dimension (solution st_n) = geometric_dimension (solution st) \<and>
    length (gravity self) = geometric_dimension (solution st) \<longrightarrow>
      (\<exists>F. integrand_of (update_governing_form self) = Some F \<and>
         Dot (TestFunctions (function_space (solution st)) 1)
           (Sum (time_derivative_of_velocity self (solution st) (solution st_n))
                (buoyancy self (Split (solution st) 2)))
         \<in> set (summands F)))"
proof -
  have built: "buoyancy self T =
     Product (Division (Product T (Constant (Scalar (rayleigh_numer self))))
                (Product (Constant (Scalar (prandtl_number self)))
                   (Power (Constant (Scalar 1)) (IntValue 2))))
       (Constant (Vector (gravity self)))"
    by (simp add: buoyancy_def f_B_def)
  have proportional:
    "\<forall>t. f_B_spec (rayleigh_numer self) (prandtl_number self) 1 (gravity self) t =
      scale_vec t (f_B_spec (rayleigh_numer self) (prandtl_number self) 1 (gravity self) 1)"
    by (simp add: f_B_spec_def scale_vec_def)
  have valued: "\<forall>e t. eval E e = Some (Scalar t) \<longrightarrow>
      eval E (buoyancy self e) =
        (if prandtl_number self = 0 then None
         else Some (Vector (f_B_spec (rayleigh_numer self) (prandtl_number self) 1
                              (gravity self) t)))"
    by (simp add: eval_buoyancy)
  have linear: "\<forall>\<alpha> \<beta> s t.
      f_B_spec (rayleigh_numer self) (prandtl_number self) 1 (gravity self) (\<alpha> * s + \<beta> * t) =
        add_vec
          (scale_vec \<alpha> (f_B_spec (rayleigh_numer self) (prandtl_number self) 1 (gravity self) s))
          (scale_vec \<beta> (f_B_spec (rayleigh_numer self) (prandtl_number self) 1 (gravity self) t))"
    by (simp add: f_B_spec_linear)
  have used:
    "integration_metric self = Some dx \<and> state self = Some st \<and> old_state self = Some st_n \<and>
     geometric_dimension (solution st_n) = geometric_dimension (solution st) \<and>
     length (gravity self) = geometric_dimension (solution st) \<longrightarrow>
      (\<exists>F. integrand_of (update_governing_form self) = Some F \<and>
         Dot (TestFunctions (function_space (solution st)) 1)
           (Sum (time_derivative_of_velocity self (solution st) (solution st_n))
                (buoyancy self (Split (solution st) 2)))
         \<in> set (summands F))"
    using buoyancy_term_in_integrand
      [of self dx st st_n "geometric_dimension (solution st)"]
    by blast
  from built valued linear proportional used show ?thesis by (intro conjI)
qed

theorem buoyancy_proportional_to_temperature_witness:
  "eval example_point (Split example_w 2) = Some (Scalar 1) \<and>
   eval example_point (buoyancy example_simulation (Split example_w 2)) = Some (Vector [0, - 1]) \<and>
   integration_metric example_simulation = Some () \<and>
   state example_simulation = Some \<lparr>solution = example_w\<rparr> \<and>
   old_state example_simulation = Some \<lparr>solution = example_w_n\<rparr> \<and>
   geometric_dimension example_w = 2 \<and> geometric_dimension example_w_n = 2 \<and>
   length (gravity example_simulation) = 2 \<and>
   (\<exists>F. integrand_of (update_governing_form example_simulation) = Some F \<and>
      Dot (TestFunctions (function_space example_w) 1)
        (Sum (time_derivative_of_velocity example_simulation example_w example_w_n)
             (buoyancy example_simulation (Split example_w 2)))
      \<in> set (summands F))"
  using buoyancy_proportional_to_temperature
    [of example_simulation "FloatValue 0" example_point "()" "\<lparr>solution = example_w\<rparr>" "\<lparr>solution = example_w_n\<rparr>"]
  by (simp add: example_attributes example_point_def example_w_def f_B_spec_def scale_vec_def)

end
